theory Spec2Isabelle
  imports Complex_Main "HOL-Library.Word" "HOL-Library.AList"
begin

section \<open>Byte strings, exceptions and \<open>struct\<close>\<close>

type_synonym byte = "8 word"
type_synonym bytes = "byte list"

text \<open>The exceptions the modelled code raises. A handler that can mutate state before it
  raises returns \<open>error option \<times> state\<close>: \<open>None\<close> is a normal return, \<open>Some e\<close> is the
  exception \<open>e\<close> leaving the handler with the state as mutated so far.\<close>

datatype error =
    StructError | ValueError | IndexError | RuntimeError | IncompleteReadError | OSError

text \<open>\<open>struct.unpack('!I', ...)\<close>, \<open>'!Q'\<close>, \<open>'!H'\<close>: an unsigned big-endian integer. The
  value is a non-negative Python int, modelled as \<open>nat\<close>.\<close>

definition unpack_uint :: "bytes \<Rightarrow> nat" where
  "unpack_uint bs = foldl (\<lambda>acc b. 256 * acc + unat b) 0 bs"

text \<open>The bytes of one field of a packed structure: \<open>n\<close> bytes from offset \<open>off\<close>.\<close>

definition field :: "nat \<Rightarrow> nat \<Rightarrow> bytes \<Rightarrow> bytes" where
  "field off n data = take n (drop off data)"

text \<open>\<open>struct.pack\<close> of one unsigned big-endian integer of \<open>n\<close> bytes; \<open>struct.error\<close> when
  the value does not fit.\<close>

definition pack_uint :: "nat \<Rightarrow> int \<Rightarrow> error + bytes" where
  "pack_uint n v =
     (if 0 \<le> v \<and> v < 2 ^ (8 * n)
      then Inr (map (\<lambda>k. word_of_int (v div 256 ^ k)) (rev [0..<n]))
      else Inl StructError)"

text \<open>\<open>struct.pack\<close> of several unsigned fields, given as (width, value) pairs.\<close>

fun struct_pack :: "(nat \<times> int) list \<Rightarrow> error + bytes" where
  "struct_pack [] = Inr []"
| "struct_pack ((n, v) # fs) =
     (case pack_uint n v of
        Inl e \<Rightarrow> Inl e
      | Inr b \<Rightarrow> (case struct_pack fs of Inl e \<Rightarrow> Inl e | Inr bs \<Rightarrow> Inr (b @ bs)))"

text \<open>A Python slice \<open>xs[:n]\<close>: a negative \<open>n\<close> counts from the end.\<close>

definition slice_to :: "int \<Rightarrow> 'a list \<Rightarrow> 'a list" where
  "slice_to n xs = (if 0 \<le> n then take (nat n) xs else take (length xs - nat (- n)) xs)"


section \<open>The UDP tracker server (\<open>server.py\<close>)\<close>

subsection \<open>\<open>TrackerStorage\<close>\<close>

text \<open>\<open>time.time()\<close> is an input of every operation that reads the clock (\<open>now\<close>).
  \<open>connection_ids\<close> is a dict from connection id to expiration time. Clock values and
  expiration times are real numbers here; the code's are binary64 floats, whose sum
  \<open>now + expiration_duration\<close> is rounded.\<close>

record TrackerStorage =
  connection_ids :: "nat \<rightharpoonup> real"
  transaction_ids :: "bytes \<Rightarrow> nat list"

definition add_connection_id :: "real \<Rightarrow> nat \<Rightarrow> real \<Rightarrow> TrackerStorage \<Rightarrow> TrackerStorage" where
  "add_connection_id now connection_id expiration_duration st =
     st\<lparr>connection_ids := (connection_ids st)(connection_id \<mapsto> now + expiration_duration)\<rparr>"

definition is_connection_id_valid :: "real \<Rightarrow> nat \<Rightarrow> TrackerStorage \<Rightarrow> bool" where
  "is_connection_id_valid now connection_id st =
     (case connection_ids st connection_id of
        None \<Rightarrow> False
      | Some expiration_time \<Rightarrow> expiration_time > now)"

subsection \<open>\<open>TorrentData\<close>\<close>

text \<open>A peer record is the dict \<open>{'ip', 'port', 'is_seeder'}\<close>. \<open>peers\<close> is a dict keyed by
  peer id; its iteration order matters (the peer list of a response is a prefix of it), so
  it is an association list in insertion order, updated in place as a dict is.\<close>

record peer_info =
  ip :: string
  port :: nat
  is_seeder :: bool

record TorrentData =
  td_info_hash :: bytes
  peers :: "(bytes \<times> peer_info) list"
  seeders_count :: int
  leechers_count :: int
  interval :: int

definition new_TorrentData :: "bytes \<Rightarrow> TorrentData" where
  "new_TorrentData h =
     \<lparr>td_info_hash = h, peers = [], seeders_count = 0, leechers_count = 0, interval = 1800\<rparr>"

text \<open>\<open>add_peer\<close>: the loop stops at the first entry with the same ip and port (the keys of
  a dict are unique, so \<open>self.peers[existing_peer]\<close> is the entry the loop stopped at);
  \<open>if existing_peer:\<close> is the truth value of its key (a bytes object: false when empty, and
  false when the loop found nothing). The caller's dict has no \<open>'is_seeder'\<close> key yet; the
  method sets it, so the field of the argument is overwritten.\<close>

definition add_peer :: "bytes \<Rightarrow> peer_info \<Rightarrow> bool \<Rightarrow> TorrentData \<Rightarrow> TorrentData" where
  "add_peer peer_id pinfo seeder t =
     (case find (\<lambda>(pid, info). ip info = ip pinfo \<and> port info = port pinfo) (peers t) of
        Some (existing_peer, old) \<Rightarrow>
          if existing_peer \<noteq> [] then
            (let t1 = (if is_seeder old \<and> \<not> seeder
                       then t\<lparr>seeders_count := seeders_count t - 1,
                              leechers_count := leechers_count t + 1\<rparr>
                       else if \<not> is_seeder old \<and> seeder
                       then t\<lparr>leechers_count := leechers_count t - 1,
                              seeders_count := seeders_count t + 1\<rparr>
                       else t)
             in t1\<lparr>peers := AList.update existing_peer (pinfo\<lparr>is_seeder := seeder\<rparr>) (peers t1)\<rparr>)
          else
            (let t1 = t\<lparr>peers := AList.update peer_id (pinfo\<lparr>is_seeder := seeder\<rparr>) (peers t)\<rparr>
             in if seeder then t1\<lparr>seeders_count := seeders_count t1 + 1\<rparr>
                else t1\<lparr>leechers_count := leechers_count t1 + 1\<rparr>)
      | None \<Rightarrow>
          (let t1 = t\<lparr>peers := AList.update peer_id (pinfo\<lparr>is_seeder := seeder\<rparr>) (peers t)\<rparr>
           in if seeder then t1\<lparr>seeders_count := seeders_count t1 + 1\<rparr>
              else t1\<lparr>leechers_count := leechers_count t1 + 1\<rparr>))"

subsection \<open>\<open>UDPTrackerServerProtocol\<close>\<close>

text \<open>An address is the (host, port) pair of a datagram. \<open>sent\<close> is the list of datagrams
  handed to \<open>transport.sendto\<close>, oldest first.\<close>

type_synonym addr = "string \<times> nat"

record server =
  storage :: TrackerStorage
  torrents :: "bytes \<rightharpoonup> TorrentData"
  sent :: "(bytes \<times> addr) list"

definition new_server :: server where
  "new_server =
     \<lparr>storage = \<lparr>connection_ids = Map.empty, transaction_ids = (\<lambda>_. [])\<rparr>,
      torrents = Map.empty, sent = []\<rparr>"

definition sendto :: "bytes \<Rightarrow> addr \<Rightarrow> server \<Rightarrow> server" where
  "sendto response a s = s\<lparr>sent := sent s @ [(response, a)]\<rparr>"

text \<open>\<open>handle_connect\<close>: \<open>rnd\<close> is the value \<open>random.randint(0, 2**64 - 1)\<close> returned.\<close>

definition handle_connect :: "real \<Rightarrow> nat \<Rightarrow> nat \<Rightarrow> addr \<Rightarrow> server \<Rightarrow> error option \<times> server" where
  "handle_connect now rnd transaction_id a s =
     (let connection_id = rnd;
          s1 = s\<lparr>storage := add_connection_id now connection_id 300 (storage s)\<rparr>
      in case struct_pack [(4, 0), (4, int transaction_id), (8, int connection_id)] of
           Inl e \<Rightarrow> (Some e, s1)
         | Inr response \<Rightarrow> (None, sendto response a s1))"

text \<open>The address-to-bytes functions of the \<open>socket\<close> library, \<open>inet_aton\<close> and
  \<open>inet_pton(AF_INET6, _)\<close>, are parameters: \<open>None\<close> is the exception they raise on a
  string they do not accept.\<close>

type_synonym resolver = "string \<Rightarrow> bytes option"

text \<open>One iteration of the loop over \<open>selected_peers\<close>: the 6 bytes of the peer
  (\<open>struct.pack('!4sH', ip_bytes[:4], peer_port)\<close>; \<open>4s\<close> pads a shorter string with zero
  bytes), or nothing when the \<open>try\<close> block raised.\<close>

definition pack_peer :: "resolver \<Rightarrow> resolver \<Rightarrow> peer_info \<Rightarrow> bytes" where
  "pack_peer inet_aton inet_pton6 p =
     (case (if CHR '':'' \<in> set (ip p) then inet_pton6 (ip p) else inet_aton (ip p)) of
        None \<Rightarrow> []
      | Some ip_bytes \<Rightarrow>
          (case pack_uint 2 (int (port p)) of
             Inl e \<Rightarrow> []
           | Inr pb \<Rightarrow> take 4 (take 4 ip_bytes @ replicate 4 0) @ pb))"

text \<open>The peers an announce from \<open>(host, port)\<close> would be given: all peers of the torrent
  but the announcing one, cut to \<open>num_to_send\<close>. \<open>num_want\<close> is unpacked with format \<open>I\<close>,
  so it is a non-negative Python int, and it is this int that is compared with \<open>-1\<close>.\<close>

definition selected_peers :: "nat \<Rightarrow> string \<Rightarrow> nat \<Rightarrow> TorrentData \<Rightarrow> peer_info list" where
  "selected_peers num_want host prt t =
     (let ps = filter (\<lambda>p. \<not> (ip p = host \<and> port p = prt)) (map snd (peers t));
          num_to_send = (if int num_want = - 1 then min 200 (int (length ps))
                         else min (int num_want) (int (length ps)))
      in slice_to num_to_send ps)"

definition handle_announce ::
  "resolver \<Rightarrow> resolver \<Rightarrow> real \<Rightarrow> bytes \<Rightarrow> nat \<Rightarrow> addr \<Rightarrow> server \<Rightarrow> error option \<times> server" where
  "handle_announce inet_aton inet_pton6 now data transaction_id a s =
     (if length data < 98 then (Some StructError, s)
      else
        let connection_id = unpack_uint (field 0 8 data);
            info_hash = field 16 20 data;
            peer_id = field 36 20 data;
            left = unpack_uint (field 64 8 data);
            event = unpack_uint (field 80 4 data);
            num_want = unpack_uint (field 92 4 data);
            prt = unpack_uint (field 96 2 data)
        in
          if \<not> is_connection_id_valid now connection_id (storage s) then (None, s)
          else if event = 3 then
            let t0 = (case torrents s info_hash of
                        None \<Rightarrow> new_TorrentData info_hash | Some t \<Rightarrow> t);
                seeder = (left = 0);
                t = add_peer peer_id \<lparr>ip = fst a, port = prt, is_seeder = False\<rparr> seeder t0;
                s1 = s\<lparr>torrents := (torrents s)(info_hash \<mapsto> t)\<rparr>;
                leechers = leechers_count t;
                seeders = seeders_count t
            in
              case struct_pack [(4, 1), (4, int transaction_id), (4, interval t)] of
                Inl e \<Rightarrow> (Some e, s1)
              | Inr r1 \<Rightarrow>
                 (case struct_pack [(4, leechers), (4, seeders)] of
                    Inl e \<Rightarrow> (Some e, s1)
                  | Inr r2 \<Rightarrow> (None, sendto (r1 @ r2) a s1))
          else
            let t0 = (case torrents s info_hash of
                        None \<Rightarrow> new_TorrentData info_hash | Some t \<Rightarrow> t);
                seeder = (left = 0);
                t = add_peer peer_id \<lparr>ip = fst a, port = prt, is_seeder = False\<rparr> seeder t0;
                s1 = s\<lparr>torrents := (torrents s)(info_hash \<mapsto> t)\<rparr>;
                leechers = leechers_count t;
                seeders = seeders_count t
            in
              case struct_pack [(4, 1), (4, int transaction_id), (4, interval t)] of
                Inl e \<Rightarrow> (Some e, s1)
              | Inr r1 \<Rightarrow>
                 (case struct_pack [(4, leechers), (4, seeders)] of
                    Inl e \<Rightarrow> (Some e, s1)
                  | Inr r2 \<Rightarrow>
                      let peer_list = concat (map (pack_peer inet_aton inet_pton6)
                                                (selected_peers num_want (fst a) prt t))
                      in (None, sendto (r1 @ r2 @ peer_list) a s1)))"

text \<open>\<open>datagram_received\<close>: every exception of a handler is caught and logged, so the
  result is the state alone. \<open>now\<close> and \<open>rnd\<close> are the clock and the random number the
  handler would draw.\<close>

definition datagram_received ::
  "resolver \<Rightarrow> resolver \<Rightarrow> real \<Rightarrow> nat \<Rightarrow> bytes \<Rightarrow> addr \<Rightarrow> server \<Rightarrow> server" where
  "datagram_received inet_aton inet_pton6 now rnd data a s =
     (if length data < 16 then s
      else
        let action = unpack_uint (field 8 4 data);
            transaction_id = unpack_uint (field 12 4 data)
        in if action = 0 then snd (handle_connect now rnd transaction_id a s)
           else if action = 1
           then snd (handle_announce inet_aton inet_pton6 now data transaction_id a s)
           else s)"

text \<open>A run of the server: the datagrams it receives, each with the clock value and the
  random number of its handler, processed in order from the state of \<open>__init__\<close>.\<close>

type_synonym event = "real \<times> nat \<times> bytes \<times> addr"

definition run_server :: "resolver \<Rightarrow> resolver \<Rightarrow> event list \<Rightarrow> server" where
  "run_server inet_aton inet_pton6 evs =
     foldl (\<lambda>s (now, rnd, data, a). datagram_received inet_aton inet_pton6 now rnd data a s)
       new_server evs"

text \<open>The event is a connect request that was given the connection id \<open>c\<close> at time \<open>t0\<close>.\<close>

definition issues :: "nat \<Rightarrow> real \<Rightarrow> event \<Rightarrow> bool" where
  "issues c t0 ev =
     (case ev of (now, rnd, data, a) \<Rightarrow>
        16 \<le> length data \<and> unpack_uint (field 8 4 data) = 0 \<and> rnd = c \<and> now = t0)"

text \<open>The number of 6-byte peer entries after the 20-byte header of an announce response.\<close>

definition peer_entries :: "bytes \<Rightarrow> nat" where
  "peer_entries response = (length response - 20) div 6"

subsection \<open>Example data for the tracker\<close>

definition ex_inet_aton :: resolver where
  "ex_inet_aton h =
     (if h = ''10.0.0.1'' then Some [10, 0, 0, 1]
      else if h = ''10.0.0.9'' then Some [10, 0, 0, 9] else None)"

definition ex_inet_pton6 :: resolver where
  "ex_inet_pton6 h = None"

text \<open>A tracker that issued connection id 77, valid until time 1000, and knows \<open>n\<close>
  leechers of the torrent with info hash \<open>01 01 ... 01\<close>, at ports 1000, 1001, ... of host
  10.0.0.1.\<close>

definition ex_peer_id :: "nat \<Rightarrow> bytes" where
  "ex_peer_id i = replicate 18 0 @ [word_of_nat (i div 256), word_of_nat i]"

definition ex_torrent :: "nat \<Rightarrow> TorrentData" where
  "ex_torrent n =
     \<lparr>td_info_hash = replicate 20 1,
      peers = map (\<lambda>i. (ex_peer_id i, \<lparr>ip = ''10.0.0.1'', port = 1000 + i, is_seeder = False\<rparr>))
                [0..<n],
      seeders_count = 0, leechers_count = int n, interval = 1800\<rparr>"

definition ex_server :: "nat \<Rightarrow> server" where
  "ex_server n =
     \<lparr>storage = \<lparr>connection_ids = [77 \<mapsto> 1000], transaction_ids = (\<lambda>_. [])\<rparr>,
      torrents = [replicate 20 1 \<mapsto> ex_torrent n], sent = []\<rparr>"

text \<open>An announce request with connection id 77, transaction id 5, the info hash above,
  peer id \<open>02 02 ... 02\<close>, left = 1, port 7000, and the given event and num_want fields.\<close>

definition ex_announce :: "bytes \<Rightarrow> bytes \<Rightarrow> bytes" where
  "ex_announce event num_want =
     [0, 0, 0, 0, 0, 0, 0, 77] @ [0, 0, 0, 1] @ [0, 0, 0, 5] @ replicate 20 1 @ replicate 20 2 @
     replicate 8 0 @ [0, 0, 0, 0, 0, 0, 0, 1] @ replicate 8 0 @ event @ replicate 4 0 @
     replicate 4 0 @ num_want @ [27, 88]"

text \<open>A connect request (magic connection id, action 0, transaction id 9), received at
  time 0 from 10.0.0.9:7000 and given the connection id 77.\<close>

definition ex_connect :: bytes where
  "ex_connect = [0, 0, 4, 23, 39, 16, 25, 128] @ [0, 0, 0, 0] @ [0, 0, 0, 9]"

definition ex_events :: "event list" where
  "ex_events = [(0, 77, ex_connect, (''10.0.0.9'', 7000))]"

section \<open>The shared download state (\<open>torrent_client.models\<close>, \<open>torrent_client.file_structure\<close>)\<close>

text \<open>\<open>models.py\<close> and \<open>file_structure.py\<close> are not among the sources; the classes the
  peer client and the torrent manager use are modelled from the specification's data model.\<close>

text \<open>Modelled from the spec: \<open>Peer\<close> (host, port, optional 20-byte peer id).\<close>

record Peer =
  host :: string
  tcp_port :: nat
  peer_id :: "bytes option"

text \<open>Modelled from the spec: \<open>PieceInfo\<close>, the spec's PieceState. \<open>blocks_present\<close> is the set of
  16 KiB blocks already written, \<open>owners\<close> the peers that claim the piece, \<open>sources\<close> the
  peers that contributed blocks to it.\<close>

record PieceInfo =
  piece_hash :: bytes
  real_length :: nat
  selected :: bool
  downloaded :: bool
  validating :: bool
  blocks_present :: "nat set"
  owners :: "Peer set"
  sources :: "Peer set"

text \<open>Modelled from the spec: \<open>PieceInfo.reset_content\<close> (back to \<^emph>\<open>empty\<close>: not downloaded,
  no block present).\<close>

definition reset_content :: "PieceInfo \<Rightarrow> PieceInfo" where
  "reset_content p = p\<lparr>downloaded := False, blocks_present := {}, sources := {}\<rparr>"

text \<open>Modelled from the spec: \<open>PieceInfo.mark_as_downloaded\<close> (the piece becomes
  \<^emph>\<open>downloaded\<close>).\<close>

definition mark_as_downloaded :: "PieceInfo \<Rightarrow> PieceInfo" where
  "mark_as_downloaded p = p\<lparr>downloaded := True, sources := {}\<rparr>"

text \<open>Modelled from the spec: \<open>BlockRequest(piece_index, block_begin, block_length)\<close>. In
  the handlers the three numbers come from unsigned fields of a message or from \<open>len\<close>, so
  they are \<open>nat\<close>.\<close>

record BlockRequest =
  piece_index :: nat
  block_begin :: nat
  block_length :: nat

text \<open>Modelled from the spec: the block size of \<open>blocks_present\<close>, 16 KiB.\<close>

definition MARKED_BLOCK_SIZE :: nat where
  "MARKED_BLOCK_SIZE = 2 ^ 14"

text \<open>Modelled from the spec: \<open>PieceInfo.mark_downloaded_blocks\<close> (update \<open>blocks_present\<close>):
  every 16 KiB block of the piece that lies within the written range becomes present (the
  last block of the piece may be short), and the peer becomes a source of the piece.\<close>

definition mark_downloaded_blocks :: "Peer \<Rightarrow> BlockRequest \<Rightarrow> PieceInfo \<Rightarrow> PieceInfo" where
  "mark_downloaded_blocks source request p =
     p\<lparr>sources := insert source (sources p),
       blocks_present := blocks_present p \<union>
         set (filter
           (\<lambda>k. block_begin request \<le> k * MARKED_BLOCK_SIZE \<and>
                min ((k + 1) * MARKED_BLOCK_SIZE) (real_length p)
                  \<le> block_begin request + block_length request)
           [0..<(real_length p + MARKED_BLOCK_SIZE - 1) div MARKED_BLOCK_SIZE])\<rparr>"

text \<open>Modelled from the spec: \<open>SessionStatistics\<close>, the per-peer and aggregate download and
  upload counters.\<close>

record SessionStatistics =
  peer_downloaded :: "Peer \<Rightarrow> nat"
  peer_uploaded :: "Peer \<Rightarrow> nat"
  total_downloaded :: nat
  total_uploaded :: nat

text \<open>Modelled from the spec: \<open>SessionStatistics.add_downloaded\<close>.\<close>

definition add_downloaded :: "Peer \<Rightarrow> nat \<Rightarrow> SessionStatistics \<Rightarrow> SessionStatistics" where
  "add_downloaded p n st =
     st\<lparr>peer_downloaded := (peer_downloaded st)(p := peer_downloaded st p + n),
        total_downloaded := total_downloaded st + n\<rparr>"

text \<open>Modelled from the spec: \<open>SessionStatistics.add_uploaded\<close>.\<close>

definition add_uploaded :: "Peer \<Rightarrow> nat \<Rightarrow> SessionStatistics \<Rightarrow> SessionStatistics" where
  "add_uploaded p n st =
     st\<lparr>peer_uploaded := (peer_uploaded st)(p := peer_uploaded st p + n),
        total_uploaded := total_uploaded st + n\<rparr>"

text \<open>Modelled from the spec: \<open>DownloadInfo\<close>, which aggregates the pieces, the set of
  interesting pieces, the counters and the \<open>complete\<close> flag.\<close>

record DownloadInfo =
  info_hash :: bytes
  piece_length :: nat
  total_size :: nat
  pieces :: "PieceInfo list"
  interesting_pieces :: "nat set"
  downloaded_piece_count :: int
  complete :: bool
  session_statistics :: SessionStatistics

text \<open>Modelled from the spec: \<open>DownloadInfo.piece_count\<close>, the number of pieces.\<close>

definition piece_count :: "DownloadInfo \<Rightarrow> nat" where
  "piece_count di = length (pieces di)"

text \<open>Modelled from the spec: \<open>DownloadInfo.get_real_piece_length\<close>, which is \<open>piece_length\<close>
  but for the last piece, which ends where the content ends.\<close>

definition get_real_piece_length :: "DownloadInfo \<Rightarrow> nat \<Rightarrow> nat" where
  "get_real_piece_length di i =
     (if i + 1 = piece_count di then total_size di - i * piece_length di else piece_length di)"

text \<open>Modelled from the spec: \<open>FileStructure\<close>. The files of the torrent are one byte string,
  their virtual concatenation. \<open>io_failure\<close> stands for an I/O failure of the underlying
  files: then \<open>read\<close> and \<open>write\<close> raise \<open>OSError\<close>.\<close>

record FileStructure =
  content :: bytes
  io_failure :: bool

text \<open>Modelled from the spec: \<open>FileStructure.read(offset, length)\<close> returns the bytes of the
  range that exist, a shorter buffer when the data is truncated.\<close>

definition fs_read :: "nat \<Rightarrow> nat \<Rightarrow> FileStructure \<Rightarrow> error + bytes" where
  "fs_read offset n fs =
     (if io_failure fs then Inl OSError else Inr (take n (drop offset (content fs))))"

text \<open>Modelled from the spec: \<open>FileStructure.write(offset, data)\<close> replaces the bytes at its
  offset, allocating zero bytes up to it.\<close>

definition fs_write :: "nat \<Rightarrow> bytes \<Rightarrow> FileStructure \<Rightarrow> error + FileStructure" where
  "fs_write offset data fs =
     (if io_failure fs then Inl OSError
      else Inr (fs\<lparr>content :=
             take offset (content fs @ replicate (offset - length (content fs)) 0) @ data @
             drop (offset + length data) (content fs)\<rparr>))"


section \<open>The peer wire client (\<open>peer_tcp_client.py\<close>)\<close>

datatype MessageType =
    Choke | Unchoke | Interested | Not_interested | Have | Bitfield | Request | Piece
  | Cancel | Port

fun message_value :: "MessageType \<Rightarrow> nat" where
  "message_value Choke = 0"
| "message_value Unchoke = 1"
| "message_value Interested = 2"
| "message_value Not_interested = 3"
| "message_value Have = 4"
| "message_value Bitfield = 5"
| "message_value Request = 6"
| "message_value Piece = 7"
| "message_value Cancel = 8"
| "message_value Port = 9"

text \<open>The enum lookup \<open>MessageType(v)\<close>: \<open>None\<close> is the \<open>ValueError\<close> of a value that is
  not a member.\<close>

definition MessageType_of :: "nat \<Rightarrow> MessageType option" where
  "MessageType_of v =
     find (\<lambda>m. message_value m = v)
       [Choke, Unchoke, Interested, Not_interested, Have, Bitfield, Request, Piece, Cancel, Port]"

subsection \<open>Bit arrays\<close>

text \<open>\<open>bitarray(endian='big')\<close>: bit \<open>i\<close> of the array is bit \<open>7 - i mod 8\<close> of byte
  \<open>i div 8\<close>. \<open>frombytes\<close> appends the 8 bits of each byte; \<open>tobytes\<close> fills the last byte
  with zero bits.\<close>

definition bits_of_byte :: "byte \<Rightarrow> bool list" where
  "bits_of_byte b = map (\<lambda>k. bit b (7 - k)) [0..<8]"

definition frombytes :: "bytes \<Rightarrow> bool list" where
  "frombytes bs = concat (map bits_of_byte bs)"

definition byte_of_bits :: "bool list \<Rightarrow> byte" where
  "byte_of_bits bs = horner_sum of_bool 2 (rev bs)"

fun tobytes :: "bool list \<Rightarrow> bytes" where
  "tobytes [] = []"
| "tobytes (b # bs) =
     byte_of_bits (take 8 (b # bs @ replicate 7 False)) # tobytes (drop 7 bs)"

subsection \<open>The session object\<close>

text \<open>The attributes of a \<open>PeerTCPClient\<close>. \<open>writer\<close> is the bytes written to the stream writer
  so far; \<open>c_downloaded\<close> and \<open>c_uploaded\<close> are the counters \<open>_downloaded\<close> and \<open>_uploaded\<close>.
  \<open>piece_owned\<close> is empty until \<open>_populate_info\<close> allocates it.\<close>

record PeerTCPClient =
  our_peer_id :: bytes
  peer :: Peer
  piece_owned :: "bool list"
  am_choking :: bool
  am_interested :: bool
  peer_choking :: bool
  peer_interested :: bool
  c_downloaded :: nat
  c_uploaded :: nat
  writer :: bytes
  connected :: bool

definition new_PeerTCPClient :: "bytes \<Rightarrow> Peer \<Rightarrow> PeerTCPClient" where
  "new_PeerTCPClient our_id p =
     \<lparr>our_peer_id = our_id, peer = p, piece_owned = [], am_choking = True,
      am_interested = False, peer_choking = True, peer_interested = False,
      c_downloaded = 0, c_uploaded = 0, writer = [], connected = False\<rparr>"

text \<open>A populated session: the client together with the two shared objects its attributes
  \<open>_download_info\<close> and \<open>_file_structure\<close> refer to. The handlers mutate all three.\<close>

record session =
  client :: PeerTCPClient
  download_info :: DownloadInfo
  file_structure :: FileStructure

text \<open>Modelled from the spec: \<open>SHA1_DIGEST_LEN\<close> of \<open>torrent_client.models\<close>, the length of
  an info hash (20 bytes).\<close>

definition SHA1_DIGEST_LEN :: nat where
  "SHA1_DIGEST_LEN = 20"

definition HANDSHAKE_DATA :: bytes where
  "HANDSHAKE_DATA = 19 # map (\<lambda>c. of_nat (of_char c)) ''BitTorrent protocol''"

definition RESERVED_BYTES :: bytes where
  "RESERVED_BYTES = replicate 8 0"

definition MAX_MESSAGE_LENGTH :: nat where
  "MAX_MESSAGE_LENGTH = 2 ^ 18"

definition MAX_REQUEST_LENGTH :: nat where
  "MAX_REQUEST_LENGTH = 2 ^ 17"

subsection \<open>Sending\<close>

text \<open>\<open>_send_message\<close> with a message id: the length prefix and the id
  (\<open>struct.pack('!IB', length, message_id.value)\<close>), then the payload portions, here one
  byte string. The keep-alive (no message id) is \<open>send_keep_alive\<close>.\<close>

definition send_message :: "MessageType \<Rightarrow> bytes \<Rightarrow> PeerTCPClient \<Rightarrow> error option \<times> PeerTCPClient" where
  "send_message message_id payload c =
     (case struct_pack [(4, int (length payload) + 1), (1, int (message_value message_id))] of
        Inl e \<Rightarrow> (Some e, c)
      | Inr header \<Rightarrow> (None, c\<lparr>writer := writer c @ header @ payload\<rparr>))"

definition send_keep_alive :: "PeerTCPClient \<Rightarrow> PeerTCPClient" where
  "send_keep_alive c = c\<lparr>writer := writer c @ replicate 4 0\<rparr>"

definition check_connect :: "PeerTCPClient \<Rightarrow> error option" where
  "check_connect c = (if \<not> connected c then Some RuntimeError else None)"

text \<open>The property setters \<open>am_choking\<close> and \<open>am_interested\<close>.\<close>

definition set_am_choking :: "bool \<Rightarrow> PeerTCPClient \<Rightarrow> error option \<times> PeerTCPClient" where
  "set_am_choking v c =
     (case check_connect c of
        Some e \<Rightarrow> (Some e, c)
      | None \<Rightarrow>
          if am_choking c \<noteq> v
          then send_message (if v then Choke else Unchoke) [] (c\<lparr>am_choking := v\<rparr>)
          else (None, c))"

definition set_am_interested :: "bool \<Rightarrow> PeerTCPClient \<Rightarrow> error option \<times> PeerTCPClient" where
  "set_am_interested v c =
     (case check_connect c of
        Some e \<Rightarrow> (Some e, c)
      | None \<Rightarrow>
          if am_interested c \<noteq> v
          then send_message (if v then Interested else Not_interested) [] (c\<lparr>am_interested := v\<rparr>)
          else (None, c))"

definition send_bitfield :: "session \<Rightarrow> error option \<times> session" where
  "send_bitfield s =
     (if downloaded_piece_count (download_info s) \<noteq> 0 then
        (let arr = map downloaded (pieces (download_info s))
         in case send_message Bitfield (tobytes arr) (client s) of
              (r, c) \<Rightarrow> (r, s\<lparr>client := c\<rparr>))
      else (None, s))"

subsection \<open>The handshake\<close>

text \<open>The stream reader is the byte string the peer sends before it closes the connection
  or falls silent: \<open>readexactly(n)\<close> takes \<open>n\<close> bytes off its front and raises
  \<open>IncompleteReadError\<close> when fewer are left. The deadlines of \<open>asyncio.wait_for\<close> and the
  flushing of the writer (\<open>drain\<close>) are real-time behaviour outside this model.\<close>

definition readexactly :: "nat \<Rightarrow> bytes \<Rightarrow> error + (bytes \<times> bytes)" where
  "readexactly n inp =
     (if length inp < n then Inl IncompleteReadError else Inr (take n inp, drop n inp))"

definition send_protocol_data :: "PeerTCPClient \<Rightarrow> PeerTCPClient" where
  "send_protocol_data c = c\<lparr>writer := writer c @ HANDSHAKE_DATA @ RESERVED_BYTES\<rparr>"

definition receive_protocol_data :: "bytes \<Rightarrow> error + bytes" where
  "receive_protocol_data inp =
     (case readexactly (length HANDSHAKE_DATA + length RESERVED_BYTES) inp of
        Inl e \<Rightarrow> Inl e
      | Inr (response, rest) \<Rightarrow>
          if take (length HANDSHAKE_DATA) response \<noteq> HANDSHAKE_DATA then Inl ValueError
          else Inr rest)"

definition populate_info :: "DownloadInfo \<Rightarrow> FileStructure \<Rightarrow> PeerTCPClient \<Rightarrow> session" where
  "populate_info di fs c =
     \<lparr>client = c\<lparr>piece_owned := replicate (piece_count di) False,
                 writer := writer c @ info_hash di @ our_peer_id c\<rparr>,
      download_info = di, file_structure = fs\<rparr>"

text \<open>\<open>_receive_info\<close> returns the info hash received and stores the peer id received in the
  peer.\<close>

definition receive_info :: "bytes \<Rightarrow> PeerTCPClient \<Rightarrow> error + (bytes \<times> bytes \<times> PeerTCPClient)" where
  "receive_info inp c =
     (case readexactly (SHA1_DIGEST_LEN + length (our_peer_id c)) inp of
        Inl e \<Rightarrow> Inl e
      | Inr (response, rest) \<Rightarrow>
          let actual_info_hash = take SHA1_DIGEST_LEN response;
              actual_peer_id = drop SHA1_DIGEST_LEN response
          in if our_peer_id c = actual_peer_id then Inl ValueError
             else if peer_id (peer c) \<noteq> None \<and> peer_id (peer c) \<noteq> Some actual_peer_id
             then Inl ValueError
             else Inr (actual_info_hash, rest,
                       c\<lparr>peer := (peer c)\<lparr>peer_id := Some actual_peer_id\<rparr>\<rparr>))"

definition close :: "PeerTCPClient \<Rightarrow> PeerTCPClient" where
  "close c = c\<lparr>connected := False\<rparr>"

text \<open>\<open>connect\<close>, from the point where the connection is open. The result is the exception
  raised or nothing, the session, and what is left of the peer's stream: a \<open>readexactly\<close>
  that was called has consumed its bytes (all that was there, when it raised), also when the
  handshake fails after it.\<close>

definition connect ::
  "DownloadInfo \<Rightarrow> FileStructure \<Rightarrow> bytes \<Rightarrow> PeerTCPClient \<Rightarrow> error option \<times> session \<times> bytes" where
  "connect di fs inp c =
     (let s = populate_info di fs (send_protocol_data c)
      in case receive_protocol_data inp of
           Inl e \<Rightarrow>
             (Some e, s\<lparr>client := close (client s)\<rparr>,
              drop (length HANDSHAKE_DATA + length RESERVED_BYTES) inp)
         | Inr rest \<Rightarrow>
            (case receive_info rest (client s) of
               Inl e \<Rightarrow>
                 (Some e, s\<lparr>client := close (client s)\<rparr>,
                  drop (SHA1_DIGEST_LEN + length (our_peer_id (client s))) rest)
             | Inr (actual_info_hash, rest', c') \<Rightarrow>
                 if actual_info_hash \<noteq> info_hash di
                 then (Some ValueError, s\<lparr>client := close c'\<rparr>, rest')
                 else
                   (case send_bitfield (s\<lparr>client := c'\<rparr>) of
                      (Some e, s') \<Rightarrow> (Some e, s', rest')
                    | (None, s') \<Rightarrow>
                        (None, s'\<lparr>client := (client s')\<lparr>connected := True\<rparr>\<rparr>, rest'))))"

text \<open>\<open>confirm_info_hash\<close>: the end of the handshake of an accepted connection.\<close>

definition confirm_info_hash ::
  "DownloadInfo \<Rightarrow> FileStructure \<Rightarrow> PeerTCPClient \<Rightarrow> error option \<times> session" where
  "confirm_info_hash di fs c =
     (case send_bitfield (populate_info di fs c) of
        (Some e, s') \<Rightarrow> (Some e, s')
      | (None, s') \<Rightarrow> (None, s'\<lparr>client := (client s')\<lparr>connected := True\<rparr>\<rparr>))"

subsection \<open>Receiving\<close>

text \<open>\<open>_receive_message\<close>: \<open>None\<close> for a keep-alive and for a message id that is not a
  member of \<open>MessageType\<close>, else the message id and the payload; with it, the rest of the
  stream.\<close>

definition receive_message :: "bytes \<Rightarrow> error + ((MessageType \<times> bytes) option \<times> bytes)" where
  "receive_message inp =
     (case readexactly 4 inp of
        Inl e \<Rightarrow> Inl e
      | Inr (data, rest) \<Rightarrow>
          let len = unpack_uint data
          in if len = 0 then Inr (None, rest)
             else if len > MAX_MESSAGE_LENGTH then Inl ValueError
             else
               (case readexactly len rest of
                  Inl e \<Rightarrow> Inl e
                | Inr (data, rest') \<Rightarrow>
                   (case data of
                      [] \<Rightarrow> Inl IndexError
                    | b # payload \<Rightarrow>
                       (case MessageType_of (unat b) of
                          None \<Rightarrow> Inr (None, rest')
                        | Some message_id \<Rightarrow> Inr (Some (message_id, payload), rest')))))"

definition check_payload_len :: "bytes \<Rightarrow> nat \<Rightarrow> error option" where
  "check_payload_len payload expected_len =
     (if length payload \<noteq> expected_len then Some ValueError else None)"

definition handle_setting_states :: "MessageType \<Rightarrow> bytes \<Rightarrow> session \<Rightarrow> error option \<times> session" where
  "handle_setting_states message_id payload s =
     (case check_payload_len payload 0 of
        Some e \<Rightarrow> (Some e, s)
      | None \<Rightarrow>
          (None,
           if message_id = Choke then s\<lparr>client := (client s)\<lparr>peer_choking := True\<rparr>\<rparr>
           else if message_id = Unchoke then s\<lparr>client := (client s)\<lparr>peer_choking := False\<rparr>\<rparr>
           else if message_id = Interested then s\<lparr>client := (client s)\<lparr>peer_interested := True\<rparr>\<rparr>
           else if message_id = Not_interested
           then s\<lparr>client := (client s)\<lparr>peer_interested := False\<rparr>\<rparr>
           else s))"

text \<open>\<open>_mark_as_owner\<close>: each of the two subscripts raises \<open>IndexError\<close> out of range, after
  the statements before it took effect.\<close>

definition mark_as_owner :: "nat \<Rightarrow> session \<Rightarrow> error option \<times> session" where
  "mark_as_owner i s =
     (if length (piece_owned (client s)) \<le> i then (Some IndexError, s)
      else
        let s1 = s\<lparr>client := (client s)\<lparr>piece_owned := (piece_owned (client s))[i := True]\<rparr>\<rparr>;
            di = download_info s1
        in if length (pieces di) \<le> i then (Some IndexError, s1)
           else
             let p = pieces di ! i;
                 s2 = s1\<lparr>download_info :=
                        di\<lparr>pieces := (pieces di)[i := p\<lparr>owners := insert (peer (client s1)) (owners p)\<rparr>]\<rparr>\<rparr>
             in if i \<in> interesting_pieces (download_info s2)
                then (case set_am_interested True (client s2) of (r, c) \<Rightarrow> (r, s2\<lparr>client := c\<rparr>))
                else (None, s2))"

text \<open>The first loop of the bitfield branch of \<open>_handle_haves\<close>, over the piece indices.\<close>

fun mark_owned :: "bool list \<Rightarrow> nat list \<Rightarrow> session \<Rightarrow> error option \<times> session" where
  "mark_owned arr [] s = (None, s)"
| "mark_owned arr (i # rest) s =
     (if arr ! i then
        (case mark_as_owner i s of
           (Some e, s') \<Rightarrow> (Some e, s')
         | (None, s') \<Rightarrow> mark_owned arr rest s')
      else mark_owned arr rest s)"

text \<open>\<open>_handle_haves\<close>. \<open>int(ceil(piece_count / 8))\<close> is the number of bytes that hold
  \<open>piece_count\<close> bits.\<close>

definition handle_haves :: "MessageType \<Rightarrow> bytes \<Rightarrow> session \<Rightarrow> error option \<times> session" where
  "handle_haves message_id payload s =
     (if message_id = Have then
        (if length payload \<noteq> 4 then (Some StructError, s)
         else mark_as_owner (unpack_uint payload) s)
      else if message_id = Bitfield then
        (let pc = piece_count (download_info s)
         in case check_payload_len payload ((pc + 7) div 8) of
              Some e \<Rightarrow> (Some e, s)
            | None \<Rightarrow>
                let arr = frombytes payload
                in (case mark_owned arr [0..<pc] s of
                      (Some e, s') \<Rightarrow> (Some e, s')
                    | (None, s') \<Rightarrow>
                        if list_ex (\<lambda>i. arr ! i) [pc..<length arr] then (Some ValueError, s')
                        else (None, s')))
      else (None, s))"

definition check_position_range :: "BlockRequest \<Rightarrow> DownloadInfo \<Rightarrow> error option" where
  "check_position_range request di =
     (if piece_count di \<le> piece_index request then Some IndexError
      else
        let end_offset = piece_index request * piece_length di + block_begin request +
                         block_length request
        in if block_begin request + block_length request > piece_length di \<or>
              end_offset > total_size di
           then Some IndexError else None)"

text \<open>\<open>_send_block\<close>: the block is whatever the file store returns for the range.\<close>

definition send_block :: "BlockRequest \<Rightarrow> session \<Rightarrow> error option \<times> session" where
  "send_block request s =
     (case fs_read (piece_index request * piece_length (download_info s) + block_begin request)
             (block_length request) (file_structure s) of
        Inl e \<Rightarrow> (Some e, s)
      | Inr block \<Rightarrow>
         (case struct_pack [(4, int (piece_index request)), (4, int (block_begin request))] of
            Inl e \<Rightarrow> (Some e, s)
          | Inr header \<Rightarrow>
             (case send_message Piece (header @ block) (client s) of
                (Some e, c) \<Rightarrow> (Some e, s\<lparr>client := c\<rparr>)
              | (None, c) \<Rightarrow>
                  (None,
                   s\<lparr>client := c\<lparr>c_uploaded := c_uploaded c + block_length request\<rparr>,
                     download_info := (download_info s)
                       \<lparr>session_statistics :=
                          add_uploaded (peer c) (block_length request)
                            (session_statistics (download_info s))\<rparr>\<rparr>))))"

text \<open>\<open>_handle_requests\<close>, for request and cancel messages: the payload is unpacked and its
  range checked for both; a cancel does nothing more.\<close>

definition handle_requests :: "MessageType \<Rightarrow> bytes \<Rightarrow> session \<Rightarrow> error option \<times> session" where
  "handle_requests message_id payload s =
     (if length payload \<noteq> 12 then (Some StructError, s)
      else
        let request = \<lparr>piece_index = unpack_uint (field 0 4 payload),
                       block_begin = unpack_uint (field 4 4 payload),
                       block_length = unpack_uint (field 8 4 payload)\<rparr>
        in case check_position_range request (download_info s) of
             Some e \<Rightarrow> (Some e, s)
           | None \<Rightarrow>
               if message_id = Request then
                 (if block_length request > MAX_REQUEST_LENGTH then (Some ValueError, s)
                  else if am_choking (client s) \<or> \<not> peer_interested (client s) \<or>
                          \<not> downloaded (pieces (download_info s) ! piece_index request)
                  then (None, s)
                  else send_block request s)
               else (None, s))"

text \<open>\<open>_handle_block\<close>. The file-store lock it holds keeps piece validation by other tasks
  out of the section between the test of the piece's flags and the write; it does not change
  what one call computes.\<close>

definition handle_block :: "bytes \<Rightarrow> session \<Rightarrow> error option \<times> session" where
  "handle_block payload s =
     (if \<not> am_interested (client s) then (None, s)
      else if length payload < 8 then (Some StructError, s)
      else
        let block_data = drop 8 payload;
            request = \<lparr>piece_index = unpack_uint (field 0 4 payload),
                       block_begin = unpack_uint (field 4 4 payload),
                       block_length = length block_data\<rparr>
        in case check_position_range request (download_info s) of
             Some e \<Rightarrow> (Some e, s)
           | None \<Rightarrow>
               if block_length request = 0 then (None, s)
               else
                 let di = download_info s;
                     piece_info = pieces di ! piece_index request
                 in if validating piece_info \<or> downloaded piece_info then (None, s)
                    else
                      let c1 = (client s)\<lparr>c_downloaded := c_downloaded (client s) + block_length request\<rparr>;
                          di1 = di\<lparr>session_statistics :=
                                   add_downloaded (peer c1) (block_length request)
                                     (session_statistics di)\<rparr>;
                          s1 = s\<lparr>client := c1, download_info := di1\<rparr>
                      in (case fs_write (piece_index request * piece_length di + block_begin request)
                                 block_data (file_structure s) of
                            Inl e \<Rightarrow> (Some e, s1)
                          | Inr fs' \<Rightarrow>
                              (None,
                               s1\<lparr>file_structure := fs',
                                  download_info := di1
                                    \<lparr>pieces := (pieces di1)
                                       [piece_index request :=
                                          mark_downloaded_blocks (peer c1) request piece_info]\<rparr>\<rparr>)))"

text \<open>One turn of the dispatch in \<open>run\<close> for a received message.\<close>

definition dispatch :: "MessageType \<Rightarrow> bytes \<Rightarrow> session \<Rightarrow> error option \<times> session" where
  "dispatch message_id payload s =
     (if message_id \<in> {Choke, Unchoke, Interested, Not_interested}
      then handle_setting_states message_id payload s
      else if message_id \<in> {Have, Bitfield} then handle_haves message_id payload s
      else if message_id \<in> {Request, Cancel} then handle_requests message_id payload s
      else if message_id = Piece then handle_block payload s
      else if message_id = Port then (check_payload_len payload 2, s)
      else (None, s))"

text \<open>\<open>run\<close>: the receive loop. It ends only with an exception; the result is that
  exception and the session as the handlers left it.\<close>

function run :: "session \<Rightarrow> bytes \<Rightarrow> error \<times> session" where
  "run s inp =
     (case receive_message inp of
        Inl e \<Rightarrow> (e, s)
      | Inr (None, rest) \<Rightarrow> run s rest
      | Inr (Some (message_id, payload), rest) \<Rightarrow>
          (case dispatch message_id payload s of
             (Some e, s') \<Rightarrow> (e, s')
           | (None, s') \<Rightarrow> run s' rest))"
  by pat_completeness auto
termination
  by (relation "measure (\<lambda>(s, inp). length inp)")
     (auto simp: receive_message_def readexactly_def Let_def
           split: if_splits sum.splits list.splits option.splits)


text \<open>What \<open>connect\<close> and \<open>confirm_info_hash\<close> establish and every handler keeps: the session
  is connected and \<open>piece_owned\<close> has one entry per piece.\<close>

definition session_ok :: "session \<Rightarrow> bool" where
  "session_ok s \<longleftrightarrow>
     connected (client s) \<and> length (piece_owned (client s)) = piece_count (download_info s)"


section \<open>Verification of existing data (\<open>torrent_manager.py\<close>)\<close>

text \<open>\<open>TorrentManager._verify_existing_data\<close>. The SHA-1 function of \<open>hashlib\<close> is a
  parameter. The loop over the selected pieces carries the download info, \<open>verified_count\<close>
  and \<open>missing_pieces\<close>; an \<open>OSError\<close> of the read is caught and counts as no data.\<close>

fun verify_pieces ::
  "(bytes \<Rightarrow> bytes) \<Rightarrow> FileStructure \<Rightarrow> nat list \<Rightarrow> DownloadInfo \<times> nat \<times> nat list \<Rightarrow>
   DownloadInfo \<times> nat \<times> nat list" where
  "verify_pieces sha1 fs [] acc = acc"
| "verify_pieces sha1 fs (index # rest) (di, verified_count, missing_pieces) =
     (let piece = pieces di ! index;
          piece_len = get_real_piece_length di index;
          offset = index * piece_length di;
          data = (case fs_read offset piece_len fs of Inl e \<Rightarrow> [] | Inr d \<Rightarrow> d)
      in if length data \<noteq> piece_len then
           verify_pieces sha1 fs rest
             (di\<lparr>pieces := (pieces di)[index := reset_content piece]\<rparr>,
              verified_count, missing_pieces @ [index])
         else if sha1 data = piece_hash piece then
           verify_pieces sha1 fs rest
             (di\<lparr>pieces := (pieces di)
                      [index := (if \<not> downloaded piece then mark_as_downloaded piece else piece)],
                 downloaded_piece_count := downloaded_piece_count di + 1\<rparr>,
              verified_count + 1, missing_pieces)
         else
           verify_pieces sha1 fs rest
             (di\<lparr>pieces := (pieces di)[index := reset_content piece]\<rparr>,
              verified_count, missing_pieces @ [index]))"

definition verify_existing_data ::
  "(bytes \<Rightarrow> bytes) \<Rightarrow> FileStructure \<Rightarrow> DownloadInfo \<Rightarrow> DownloadInfo" where
  "verify_existing_data sha1 fs di0 =
     (let selected_piece_indices =
            filter (\<lambda>i. selected (pieces di0 ! i)) [0..<length (pieces di0)]
      in if selected_piece_indices = []
         then di0\<lparr>downloaded_piece_count := 0, complete := False, interesting_pieces := {}\<rparr>
         else
           (case verify_pieces sha1 fs selected_piece_indices
                   (di0\<lparr>downloaded_piece_count := 0, interesting_pieces := {}\<rparr>, 0, []) of
              (di, verified_count, missing_pieces) \<Rightarrow>
                let di' = (if missing_pieces \<noteq> []
                           then di\<lparr>interesting_pieces :=
                                    interesting_pieces di \<union> set missing_pieces\<rparr>
                           else di)
                in di'\<lparr>complete := (verified_count = length selected_piece_indices \<and>
                                      verified_count > 0)\<rparr>))"


subsection \<open>Example data for the client\<close>

text \<open>A torrent of two pieces of 4 bytes. The stand-in for SHA-1 is the sum of the bytes,
  repeated 20 times; both pieces have the hash \<open>07 07 ... 07\<close>.\<close>

definition ex_sha1 :: "bytes \<Rightarrow> bytes" where
  "ex_sha1 d = replicate 20 (sum_list d)"

definition ex_piece :: "bool \<Rightarrow> bool \<Rightarrow> PieceInfo" where
  "ex_piece sel dl =
     \<lparr>piece_hash = replicate 20 7, real_length = 4, selected = sel, downloaded = dl,
      validating = False, blocks_present = {}, owners = {}, sources = {}\<rparr>"

definition ex_stats :: SessionStatistics where
  "ex_stats = \<lparr>peer_downloaded = (\<lambda>_. 0), peer_uploaded = (\<lambda>_. 0),
                total_downloaded = 0, total_uploaded = 0\<rparr>"

definition ex_info :: "PieceInfo list \<Rightarrow> DownloadInfo" where
  "ex_info ps =
     \<lparr>info_hash = replicate 20 1, piece_length = 4, total_size = 8, pieces = ps,
      interesting_pieces = {}, downloaded_piece_count = 0, complete = False,
      session_statistics = ex_stats\<rparr>"

text \<open>Stored data whose first piece has the right hash and whose second piece has not, and
  stored data where both have.\<close>

definition ex_fs_half :: FileStructure where
  "ex_fs_half = \<lparr>content = [1, 2, 4, 0, 1, 1, 1, 1], io_failure = False\<rparr>"

definition ex_fs_full :: FileStructure where
  "ex_fs_full = \<lparr>content = [1, 2, 4, 0, 3, 3, 1, 0], io_failure = False\<rparr>"


text \<open>A connected session with the peer 10.0.0.2:6881 on the two-piece torrent, and one on a
  torrent of a single downloaded piece of 256 KiB.\<close>

definition ex_peer :: Peer where
  "ex_peer = \<lparr>host = ''10.0.0.2'', tcp_port = 6881, peer_id = None\<rparr>"

definition ex_client :: PeerTCPClient where
  "ex_client = (new_PeerTCPClient (replicate 20 3) ex_peer)\<lparr>connected := True\<rparr>"

definition ex_session :: "PieceInfo list \<Rightarrow> session" where
  "ex_session ps =
     \<lparr>client = ex_client\<lparr>piece_owned := replicate (length ps) False\<rparr>,
      download_info = ex_info ps, file_structure = ex_fs_full\<rparr>"

definition ex_big_session :: session where
  "ex_big_session =
     \<lparr>client = ex_client\<lparr>piece_owned := [False], am_choking := False, peer_interested := True\<rparr>,
      download_info =
        (ex_info [(ex_piece True True)\<lparr>real_length := 262144\<rparr>])
          \<lparr>piece_length := 262144, total_size := 262144, downloaded_piece_count := 1\<rparr>,
      file_structure = \<lparr>content = replicate 262144 0, io_failure = False\<rparr>\<rparr>"


text \<open>The same torrent with its first piece downloaded, and the handshake of a peer with
  peer id \<open>09 09 ... 09\<close> for it.\<close>

definition ex_half_info :: DownloadInfo where
  "ex_half_info =
     (ex_info [ex_piece True True, ex_piece True False])\<lparr>downloaded_piece_count := 1\<rparr>"

definition ex_handshake :: bytes where
  "ex_handshake = HANDSHAKE_DATA @ RESERVED_BYTES @ replicate 20 1 @ replicate 20 9"


section \<open>Properties of the tracker server\<close>

subsection \<open>Packing and the example data\<close>

lemma length_pack_uint: "pack_uint n v = Inr b \<Longrightarrow> length b = n"
  by (auto simp: pack_uint_def split: if_splits)

lemma length_struct_pack:
  "struct_pack fs = Inr b \<Longrightarrow> length b = sum_list (map fst fs)"
  by (induction fs arbitrary: b rule: struct_pack.induct)
     (auto split: sum.splits dest: length_pack_uint)

lemma struct_pack_append:
  "struct_pack (fs @ gs) =
     (case struct_pack fs of Inl e \<Rightarrow> Inl e
      | Inr b \<Rightarrow> (case struct_pack gs of Inl e \<Rightarrow> Inl e | Inr c \<Rightarrow> Inr (b @ c)))"
  by (induction fs rule: struct_pack.induct) (auto split: sum.splits)

lemma selected_peers_take:
  "selected_peers num_want h prt t =
     take num_want (filter (\<lambda>p. \<not> (ip p = h \<and> port p = prt)) (map snd (peers t)))"
  by (simp add: selected_peers_def slice_to_def Let_def min_def)

lemma update_fresh: "k \<notin> fst ` set al \<Longrightarrow> AList.update k v al = al @ [(k, v)]"
  by (induction al) auto

lemma length_concat_const:
  "\<forall>x\<in>set xs. length (f x) = c \<Longrightarrow> length (concat (map f xs)) = c * length xs"
  by (induction xs) auto

lemma handle_announce_valid:
  assumes "98 \<le> length data"
      and "is_connection_id_valid now (unpack_uint (field 0 8 data)) (storage s)"
  shows "handle_announce inet_aton inet_pton6 now data tid a s =
     (let t = add_peer (field 36 20 data)
                \<lparr>ip = fst a, port = unpack_uint (field 96 2 data), is_seeder = False\<rparr>
                (unpack_uint (field 64 8 data) = 0)
                (case torrents s (field 16 20 data) of
                   None \<Rightarrow> new_TorrentData (field 16 20 data) | Some t \<Rightarrow> t);
          s1 = s\<lparr>torrents := (torrents s)(field 16 20 data \<mapsto> t)\<rparr>
      in case struct_pack [(4, 1), (4, int tid), (4, interval t),
                           (4, leechers_count t), (4, seeders_count t)] of
           Inl e \<Rightarrow> (Some e, s1)
         | Inr hdr \<Rightarrow>
             (None, sendto
                (if unpack_uint (field 80 4 data) = 3 then hdr
                 else hdr @ concat (map (pack_peer inet_aton inet_pton6)
                        (selected_peers (unpack_uint (field 92 4 data)) (fst a)
                           (unpack_uint (field 96 2 data)) t))) a s1))"
proof -
  have split5: "struct_pack [(4, 1), (4, int tid), (4, i), (4, l), (4, sd)] =
     (case struct_pack [(4, 1), (4, int tid), (4, i)] of Inl e \<Rightarrow> Inl e
      | Inr b \<Rightarrow> (case struct_pack [(4, l), (4, sd)] of Inl e \<Rightarrow> Inl e | Inr c \<Rightarrow> Inr (b @ c)))"
    for i l sd
    using struct_pack_append [of "[(4, 1), (4, int tid), (4, i)]" "[(4, l), (4, sd)]"] by simp
  show ?thesis
    using assms unfolding handle_announce_def Let_def split5
    by (simp split: sum.splits)
qed

lemma handle_announce_storage:
  "storage (snd (handle_announce f g now data tid a s)) = storage s"
  by (simp add: handle_announce_def Let_def sendto_def split: sum.splits)

lemma handle_announce_invalid:
  "\<not> is_connection_id_valid now (unpack_uint (field 0 8 data)) (storage s) \<Longrightarrow>
   snd (handle_announce f g now data tid a s) = s"
  by (simp add: handle_announce_def Let_def)

lemma handle_connect_ids:
  "connection_ids (storage (snd (handle_connect now rnd tid a s))) =
     (connection_ids (storage s))(rnd \<mapsto> now + 300)"
  by (simp add: handle_connect_def Let_def sendto_def add_connection_id_def split: sum.splits)

lemma datagram_received_ids:
  assumes "connection_ids (storage (datagram_received f g now rnd data a s)) c = Some e"
  shows "connection_ids (storage s) c = Some e \<or>
         (issues c now (now, rnd, data, a) \<and> e = now + 300)"
  using assms
  by (auto simp: datagram_received_def Let_def handle_connect_ids handle_announce_storage
        issues_def split: if_splits)

lemma run_server_snoc:
  "run_server f g (evs @ [(now, rnd, data, a)]) =
     datagram_received f g now rnd data a (run_server f g evs)"
  by (simp add: run_server_def)

lemma issued_invariant:
  "connection_ids (storage (run_server f g evs)) c = Some e \<Longrightarrow>
   \<exists>ev\<in>set evs. \<exists>t0. issues c t0 ev \<and> e = t0 + 300"
proof (induction evs arbitrary: e rule: rev_induct)
  case Nil
  then show ?case by (simp add: run_server_def new_server_def)
next
  case (snoc ev evs)
  obtain now rnd data a where ev: "ev = (now, rnd, data, a)"
    by (cases ev) auto
  from snoc.prems have
    "connection_ids (storage (datagram_received f g now rnd data a (run_server f g evs))) c = Some e"
    by (simp add: ev run_server_snoc)
  from datagram_received_ids [OF this] show ?case
  proof
    assume "connection_ids (storage (run_server f g evs)) c = Some e"
    from snoc.IH [OF this] show ?thesis by auto
  next
    assume "issues c now (now, rnd, data, a) \<and> e = now + 300"
    then show ?thesis by (auto simp: ev)
  qed
qed

lemma ex_fields:
  "length (ex_announce [e1,e2,e3,e4] [n1,n2,n3,n4]) = 98"
  "field 0 8 (ex_announce [e1,e2,e3,e4] [n1,n2,n3,n4]) = [0, 0, 0, 0, 0, 0, 0, 77]"
  "field 16 20 (ex_announce [e1,e2,e3,e4] [n1,n2,n3,n4]) = replicate 20 1"
  "field 36 20 (ex_announce [e1,e2,e3,e4] [n1,n2,n3,n4]) = replicate 20 2"
  "field 64 8 (ex_announce [e1,e2,e3,e4] [n1,n2,n3,n4]) = [0, 0, 0, 0, 0, 0, 0, 1]"
  "field 80 4 (ex_announce [e1,e2,e3,e4] [n1,n2,n3,n4]) = [e1,e2,e3,e4]"
  "field 92 4 (ex_announce [e1,e2,e3,e4] [n1,n2,n3,n4]) = [n1,n2,n3,n4]"
  "field 96 2 (ex_announce [e1,e2,e3,e4] [n1,n2,n3,n4]) = [27, 88]"
  by (simp_all add: ex_announce_def field_def)

lemma ex_valid: "is_connection_id_valid 0 (unpack_uint [0, 0, 0, 0, 0, 0, 0, 77]) (storage (ex_server n))"
  by (simp add: is_connection_id_valid_def ex_server_def unpack_uint_def)

lemma ex_unpack:
  "unpack_uint [255, 255, 255, 255] = 4294967295" "unpack_uint [0, 0, 0, 0] = 0"
  "unpack_uint [0, 0, 0, 3] = 3" "unpack_uint [0, 0, 0, 1] = 1"
  "unpack_uint [27, 88] = 7000" "unpack_uint [0, 0, 0, 0, 0, 0, 0, 1] = 1"
  by (simp_all add: unpack_uint_def)

lemma ex_torrents: "torrents (ex_server n) (replicate 20 1) = Some (ex_torrent n)"
  by (simp add: ex_server_def)

lemma ex_sent:
  "sent (ex_server n) = []"
  by (simp add: ex_server_def)

lemma ex_torrent_fields:
  "interval (ex_torrent n) = 1800" "leechers_count (ex_torrent n) = int n"
  "seeders_count (ex_torrent n) = 0"
  by (simp_all add: ex_torrent_def)

lemma ex_peer_id_neq: "ex_peer_id i \<noteq> replicate 20 2"
proof -
  have a: "replicate 18 (0::byte) = replicate (Suc 17) 0" by simp
  have b: "replicate 20 (2::byte) = replicate (Suc 19) 2" by simp
  show ?thesis unfolding ex_peer_id_def a b replicate_Suc by simp
qed

lemma ex_find: "find (\<lambda>(pid, info). ip info = ''10.0.0.9'' \<and> port info = 7000) (peers (ex_torrent n)) = None"
    by (auto simp: find_None_iff ex_torrent_def)

lemma ex_fresh: "replicate 20 2 \<notin> fst ` set (peers (ex_torrent n))"
proof
  assume "replicate 20 2 \<in> fst ` set (peers (ex_torrent n))"
  then obtain i where "replicate 20 2 = ex_peer_id i"
    by (auto simp: ex_torrent_def)
  with ex_peer_id_neq [of i] show False by simp
qed

lemma ex_add_peer:
  "add_peer (replicate 20 2) \<lparr>ip = ''10.0.0.9'', port = 7000, is_seeder = False\<rparr> False (ex_torrent n) =
   (ex_torrent n)\<lparr>peers := peers (ex_torrent n) @ [(replicate 20 2, \<lparr>ip = ''10.0.0.9'', port = 7000, is_seeder = False\<rparr>)],
      leechers_count := int n + 1\<rparr>"
  using ex_find [of n] ex_fresh [of n]
    by (simp add: add_peer_def update_fresh Let_def) (simp add: ex_torrent_def)

lemma ex_pack_peer:
  "i < 64536 \<Longrightarrow> length (pack_peer ex_inet_aton ex_inet_pton6 \<lparr>ip = ''10.0.0.1'', port = 1000 + i, is_seeder = b\<rparr>) = 6"
  by (simp add: pack_peer_def ex_inet_aton_def pack_uint_def)

lemma ex_selected:
  "n \<le> m \<Longrightarrow> selected_peers m ''10.0.0.9'' 7000
     ((ex_torrent n)\<lparr>peers := peers (ex_torrent n) @ [(replicate 20 2, \<lparr>ip = ''10.0.0.9'', port = 7000, is_seeder = False\<rparr>)],
      leechers_count := int n + 1\<rparr>) = map snd (peers (ex_torrent n))"
  by (simp add: selected_peers_take ex_torrent_def filter_map o_def)

lemma ex_run:
  "run_server f g ex_events =
     \<lparr>storage = \<lparr>connection_ids = [77 \<mapsto> 300], transaction_ids = (\<lambda>_. [])\<rparr>,
      torrents = Map.empty,
      sent = [([0, 0, 0, 0, 0, 0, 0, 9, 0, 0, 0, 0, 0, 0, 0, 77], (''10.0.0.9'', 7000))]\<rparr>"
  by (simp add: run_server_def ex_events_def ex_connect_def datagram_received_def field_def
        unpack_uint_def handle_connect_def new_server_def add_connection_id_def sendto_def
        pack_uint_def upt_conv_Cons)

subsection \<open>The default of \<open>num_want\<close>\<close>

text \<open>\<open>num_want\<close> comes out of \<open>struct.unpack_from\<close> with the unsigned format \<open>I\<close>, so
  the test \<open>num_want == -1\<close> never succeeds, and the cut is always \<open>min(num_want, len(peers))\<close>:
  at most \<open>num_want\<close> peers are selected, whatever the value.\<close>

lemma num_want_never_minus_one: "int (unpack_uint bs) \<noteq> - 1"
  by simp

lemma selected_peers_at_most_num_want:
  "length (selected_peers num_want h prt t) \<le> num_want"
  by (simp add: selected_peers_take)

text \<open>Claim C1. An announce whose \<open>num_want\<close> field is \<open>-1\<close> on the wire (\<open>FF FF FF FF\<close>) is to be
  answered with at most 200 peers. The code reads the field as 4294967295 instead: on a
  tracker that knows 201 other peers of the torrent, the response to such an announce
  carries all 201 of them.\<close>

theorem announce_num_want_minus_one_sends_201_peers:
  "map (\<lambda>(response, a). (peer_entries response, a))
     (sent (snd (handle_announce ex_inet_aton ex_inet_pton6 0
                   (ex_announce [0, 0, 0, 0] [255, 255, 255, 255]) 5 (''10.0.0.9'', 7000)
                   (ex_server 201)))) =
   [(201, (''10.0.0.9'', 7000))]"
proof -
  have len: "length (concat (map (pack_peer ex_inet_aton ex_inet_pton6) (map snd (peers (ex_torrent 201))))) = 6 * 201"
    by (subst length_concat_const [where c = 6]) (auto simp: ex_torrent_def ex_pack_peer)
  have sel: "selected_peers 4294967295 ''10.0.0.9'' 7000
     ((ex_torrent 201)\<lparr>peers := peers (ex_torrent 201) @
         [(replicate 20 2, \<lparr>ip = ''10.0.0.9'', port = 7000, is_seeder = False\<rparr>)],
       leechers_count := 202\<rparr>) = map snd (peers (ex_torrent 201))"
    using ex_selected [of 201 4294967295] by simp
  show ?thesis
    using len
    by (simp add: handle_announce_valid ex_fields ex_valid ex_unpack ex_add_peer ex_torrents
          ex_torrent_fields sel sendto_def peer_entries_def Let_def
          pack_uint_def upt_conv_Cons ex_sent)
qed

subsection \<open>Connection ids\<close>

text \<open>Claim C5. In every state the server reaches from its initial state by receiving
  datagrams, an announce that is answered carries a connection id that an earlier connect
  request of the run was given less than 300 seconds before; an announce whose connection id
  no connect of the run was given in the last 300 seconds leaves the server as it was: no
  response is sent and nothing is stored.\<close>

theorem accepted_connection_id_was_issued:
  assumes reach: "s = run_server f g evs"
  shows "(sent (snd (handle_announce f g now data tid a s)) \<noteq> sent s \<longrightarrow>
            (\<exists>ev\<in>set evs. \<exists>t0. issues (unpack_uint (field 0 8 data)) t0 ev \<and> now - t0 < 300)) \<and>
         (\<not> (\<exists>ev\<in>set evs. \<exists>t0. issues (unpack_uint (field 0 8 data)) t0 ev \<and> now - t0 < 300) \<longrightarrow>
            snd (handle_announce f g now data tid a s) = s)"
proof -
  let ?c = "unpack_uint (field 0 8 data)"
  have drop: "snd (handle_announce f g now data tid a s) = s"
    if none: "\<not> (\<exists>ev\<in>set evs. \<exists>t0. issues ?c t0 ev \<and> now - t0 < 300)"
  proof (rule handle_announce_invalid, rule notI)
    assume "is_connection_id_valid now ?c (storage s)"
    then obtain e where e: "connection_ids (storage s) ?c = Some e" and live: "now < e"
      by (auto simp: is_connection_id_valid_def split: option.splits)
    from issued_invariant [OF e [unfolded reach]] obtain ev t0
      where ev: "ev \<in> set evs" "issues ?c t0 ev" and "e = t0 + 300"
      by blast
    with live have "now - t0 < 300" by simp
    with ev none show False by blast
  qed
  then show ?thesis by (cases "\<exists>ev\<in>set evs. \<exists>t0. issues ?c t0 ev \<and> now - t0 < 300") simp_all
qed

theorem accepted_connection_id_was_issued_witness:
  "sent (snd (handle_announce ex_inet_aton ex_inet_pton6 10 (ex_announce [0, 0, 0, 0] [0, 0, 0, 1]) 5
            (''10.0.0.9'', 7000) (run_server ex_inet_aton ex_inet_pton6 ex_events)))
     \<noteq> sent (run_server ex_inet_aton ex_inet_pton6 ex_events) \<and>
   (\<exists>ev\<in>set ex_events. \<exists>t0.
      issues (unpack_uint (field 0 8 (ex_announce [0, 0, 0, 0] [0, 0, 0, 1]))) t0 ev \<and> 10 - t0 < 300)"
proof -
  let ?s = "run_server ex_inet_aton ex_inet_pton6 ex_events"
  have valid: "is_connection_id_valid 10 (unpack_uint [0, 0, 0, 0, 0, 0, 0, 77]) (storage ?s)"
    by (simp add: ex_run is_connection_id_valid_def unpack_uint_def)
  have h: "sent (snd (handle_announce ex_inet_aton ex_inet_pton6 10
              (ex_announce [0, 0, 0, 0] [0, 0, 0, 1]) 5 (''10.0.0.9'', 7000) ?s)) \<noteq> sent ?s"
    using valid
    by (simp add: handle_announce_valid ex_fields ex_unpack Let_def)
       (simp add: ex_run add_peer_def new_TorrentData_def pack_uint_def upt_conv_Cons sendto_def)
  from accepted_connection_id_was_issued [OF refl, THEN conjunct1, rule_format, OF h] h
  show ?thesis by simp
qed

subsection \<open>The layout of an announce response\<close>

text \<open>Claim C7. An announce with a valid connection id that the handler answers gets one
  datagram. Its first 20 bytes are action 1, the transaction id, and the interval, leecher
  count and seeder count of the torrent as stored after the announcing peer was added. For
  event 3 (stopped) that header is the whole response; for every other event the compact
  entries of the selected peers follow the same header.\<close>

theorem announce_response_layout:
  assumes valid: "is_connection_id_valid now (unpack_uint (field 0 8 data)) (storage s)"
      and ret: "handle_announce inet_aton inet_pton6 now data tid a s = (None, s')"
  shows "\<exists>t hdr. torrents s' (field 16 20 data) = Some t \<and>
           struct_pack [(4, 1), (4, int tid), (4, interval t),
                        (4, leechers_count t), (4, seeders_count t)] = Inr hdr \<and>
           length hdr = 20 \<and>
           (if unpack_uint (field 80 4 data) = 3 then sent s' = sent s @ [(hdr, a)]
            else sent s' = sent s @
              [(hdr @ concat (map (pack_peer inet_aton inet_pton6)
                  (selected_peers (unpack_uint (field 92 4 data)) (fst a)
                     (unpack_uint (field 96 2 data)) t)), a)])"
proof -
  let ?t = "add_peer (field 36 20 data)
              \<lparr>ip = fst a, port = unpack_uint (field 96 2 data), is_seeder = False\<rparr>
              (unpack_uint (field 64 8 data) = 0)
              (case torrents s (field 16 20 data) of
                 None \<Rightarrow> new_TorrentData (field 16 20 data) | Some t \<Rightarrow> t)"
  from ret have len: "98 \<le> length data"
    by (auto simp: handle_announce_def split: if_splits)
  note eq = handle_announce_valid [OF len valid, of inet_aton inet_pton6 tid a]
  from ret obtain hdr where
    hdr: "struct_pack [(4, 1), (4, int tid), (4, interval ?t),
                       (4, leechers_count ?t), (4, seeders_count ?t)] = Inr hdr"
    unfolding eq Let_def by (auto split: sum.splits)
  from ret have s': "s' = sendto
         (if unpack_uint (field 80 4 data) = 3 then hdr
          else hdr @ concat (map (pack_peer inet_aton inet_pton6)
                 (selected_peers (unpack_uint (field 92 4 data)) (fst a)
                    (unpack_uint (field 96 2 data)) ?t))) a
         (s\<lparr>torrents := (torrents s)(field 16 20 data \<mapsto> ?t)\<rparr>)"
    unfolding eq Let_def hdr by simp
  have "length hdr = 20"
    using length_struct_pack [OF hdr] by simp
  with hdr show ?thesis
    by (intro exI [of _ ?t] exI [of _ hdr]) (simp add: s' sendto_def)
qed

theorem announce_response_layout_witness:
  "is_connection_id_valid 0 (unpack_uint (field 0 8 (ex_announce [0, 0, 0, 3] [255, 255, 255, 255])))
     (storage (ex_server 2)) \<and>
   fst (handle_announce ex_inet_aton ex_inet_pton6 0 (ex_announce [0, 0, 0, 3] [255, 255, 255, 255]) 5
          (''10.0.0.9'', 7000) (ex_server 2)) = None \<and>
   (\<exists>hdr. length hdr = 20 \<and>
      sent (snd (handle_announce ex_inet_aton ex_inet_pton6 0
                   (ex_announce [0, 0, 0, 3] [255, 255, 255, 255]) 5
                   (''10.0.0.9'', 7000) (ex_server 2))) = [(hdr, (''10.0.0.9'', 7000))]) \<and>
   sent (snd (handle_announce ex_inet_aton ex_inet_pton6 0 (ex_announce [0, 0, 0, 3] [255, 255, 255, 255]) 5
          (''10.0.0.9'', 7000) (ex_server 2))) =
     [([0, 0, 0, 1, 0, 0, 0, 5, 0, 0, 7, 8, 0, 0, 0, 3, 0, 0, 0, 0], (''10.0.0.9'', 7000))] \<and>
   sent (snd (handle_announce ex_inet_aton ex_inet_pton6 0 (ex_announce [0, 0, 0, 0] [255, 255, 255, 255]) 5
          (''10.0.0.9'', 7000) (ex_server 2))) =
     [([0, 0, 0, 1, 0, 0, 0, 5, 0, 0, 7, 8, 0, 0, 0, 3, 0, 0, 0, 0] @
       [10, 0, 0, 1, 3, 232] @ [10, 0, 0, 1, 3, 233], (''10.0.0.9'', 7000))]"
proof -
  let ?stop = "ex_announce [0, 0, 0, 3] [255, 255, 255, 255]"
  let ?none = "ex_announce [0, 0, 0, 0] [255, 255, 255, 255]"
  let ?a = "(''10.0.0.9'', 7000 :: nat)"
  let ?r3 = "handle_announce ex_inet_aton ex_inet_pton6 0 ?stop 5 ?a (ex_server 2)"
  let ?r0 = "handle_announce ex_inet_aton ex_inet_pton6 0 ?none 5 ?a (ex_server 2)"
  have v3: "is_connection_id_valid 0 (unpack_uint (field 0 8 ?stop)) (storage (ex_server 2))"
    by (simp add: ex_fields ex_valid)
  have sel: "selected_peers 4294967295 ''10.0.0.9'' 7000
     ((ex_torrent 2)\<lparr>peers := peers (ex_torrent 2) @
         [(replicate 20 2, \<lparr>ip = ''10.0.0.9'', port = 7000, is_seeder = False\<rparr>)],
       leechers_count := 3\<rparr>) = map snd (peers (ex_torrent 2))"
    using ex_selected [of 2 4294967295] by simp
  have peers: "concat (map (pack_peer ex_inet_aton ex_inet_pton6 \<circ> snd) (peers (ex_torrent 2))) =
               [10, 0, 0, 1, 3, 232, 10, 0, 0, 1, 3, 233]"
    by (simp add: ex_torrent_def pack_peer_def ex_inet_aton_def pack_uint_def upt_conv_Cons)
  have r3: "fst ?r3 = None"
    by (simp add: handle_announce_valid ex_fields ex_valid ex_unpack ex_add_peer ex_torrents
          ex_torrent_fields Let_def pack_uint_def upt_conv_Cons)
  have s3: "sent (snd ?r3) = [([0, 0, 0, 1, 0, 0, 0, 5, 0, 0, 7, 8, 0, 0, 0, 3, 0, 0, 0, 0], ?a)]"
    by (simp add: handle_announce_valid ex_fields ex_valid ex_unpack ex_add_peer ex_torrents
          ex_torrent_fields Let_def pack_uint_def upt_conv_Cons sendto_def ex_sent)
  have s0: "sent (snd ?r0) = [([0, 0, 0, 1, 0, 0, 0, 5, 0, 0, 7, 8, 0, 0, 0, 3, 0, 0, 0, 0] @
       [10, 0, 0, 1, 3, 232] @ [10, 0, 0, 1, 3, 233], ?a)]"
    by (simp add: handle_announce_valid ex_fields ex_valid ex_unpack ex_add_peer ex_torrents
          ex_torrent_fields Let_def pack_uint_def upt_conv_Cons sendto_def ex_sent sel peers)
  from r3 have ret: "?r3 = (None, snd ?r3)"
    by (simp add: prod_eq_iff)
  from announce_response_layout [OF v3 ret]
  have "\<exists>hdr. length hdr = 20 \<and> sent (snd ?r3) = [(hdr, ?a)]"
    by (auto simp: ex_fields ex_unpack ex_sent)
  with v3 r3 s3 s0 show ?thesis by blast
qed

section \<open>Properties of the verification of existing data\<close>

lemma verify_pieces_step:
  "\<exists>p' dpc' mp' ok.
     verify_pieces sha1 fs (index # rest) (di, vc, mp) =
       verify_pieces sha1 fs rest
         (di\<lparr>pieces := (pieces di)[index := p'], downloaded_piece_count := dpc'\<rparr>,
          vc + (if ok then 1 else 0), mp') \<and>
     downloaded p' = ok \<and> selected p' = selected (pieces di ! index)"
proof -
  let ?data = "case fs_read (index * piece_length di) (get_real_piece_length di index) fs of
                 Inl e \<Rightarrow> [] | Inr d \<Rightarrow> d"
  let ?p = "pieces di ! index"
  consider (short) "length ?data \<noteq> get_real_piece_length di index"
    | (good) "length ?data = get_real_piece_length di index" "sha1 ?data = piece_hash ?p"
    | (bad) "length ?data = get_real_piece_length di index" "sha1 ?data \<noteq> piece_hash ?p"
    by blast
  then show ?thesis
  proof cases
    case short
    then show ?thesis
      by (intro exI [of _ "reset_content ?p"] exI [of _ "downloaded_piece_count di"]
            exI [of _ "mp @ [index]"] exI [of _ False])
         (simp add: Let_def reset_content_def)
  next
    case good
    then show ?thesis
      by (intro exI [of _ "if \<not> downloaded ?p then mark_as_downloaded ?p else ?p"]
            exI [of _ "downloaded_piece_count di + 1"] exI [of _ mp] exI [of _ True])
         (simp add: Let_def mark_as_downloaded_def)
  next
    case bad
    then show ?thesis
      by (intro exI [of _ "reset_content ?p"] exI [of _ "downloaded_piece_count di"]
            exI [of _ "mp @ [index]"] exI [of _ False])
         (simp add: Let_def reset_content_def)
  qed
qed

lemma verify_pieces_frame:
  "length (pieces (fst (verify_pieces sha1 fs idxs (di, vc, mp)))) = length (pieces di) \<and>
   (\<forall>i. i \<notin> set idxs \<longrightarrow>
      pieces (fst (verify_pieces sha1 fs idxs (di, vc, mp))) ! i = pieces di ! i) \<and>
   (\<forall>i < length (pieces di).
      selected (pieces (fst (verify_pieces sha1 fs idxs (di, vc, mp))) ! i) =
      selected (pieces di ! i))"
proof (induction idxs arbitrary: di vc mp)
  case Nil
  then show ?case by simp
next
  case (Cons index rest)
  obtain p' dpc' mp' ok where
    step: "verify_pieces sha1 fs (index # rest) (di, vc, mp) =
             verify_pieces sha1 fs rest
               (di\<lparr>pieces := (pieces di)[index := p'], downloaded_piece_count := dpc'\<rparr>,
                vc + (if ok then 1 else 0), mp')"
    and sel: "selected p' = selected (pieces di ! index)"
    using verify_pieces_step [of sha1 fs index rest di vc mp] by blast
  let ?di = "di\<lparr>pieces := (pieces di)[index := p'], downloaded_piece_count := dpc'\<rparr>"
  let ?r = "fst (verify_pieces sha1 fs rest (?di, vc + (if ok then 1 else 0), mp'))"
  note IH = Cons.IH [of ?di "vc + (if ok then 1 else 0)" mp']
  have a: "length (pieces ?r) = length (pieces di)"
    using IH by simp
  have b: "pieces ?r ! i = pieces di ! i" if "i \<notin> set (index # rest)" for i
    using IH that by simp
  have c: "selected (pieces ?r ! i) = selected (pieces di ! i)" if "i < length (pieces di)" for i
  proof (cases "i = index")
    case True
    with IH that sel show ?thesis by simp
  next
    case False
    with IH that show ?thesis by simp
  qed
  from a b c show ?case
    unfolding step by simp
qed

lemma verify_pieces_count:
  assumes "distinct idxs" and "\<forall>i\<in>set idxs. i < length (pieces di)"
  shows "fst (snd (verify_pieces sha1 fs idxs (di, vc, mp))) =
           vc + length (filter (\<lambda>i. downloaded (pieces (fst (verify_pieces sha1 fs idxs (di, vc, mp))) ! i)) idxs)"
  using assms
proof (induction idxs arbitrary: di vc mp)
  case Nil
  then show ?case by simp
next
  case (Cons index rest)
  obtain p' dpc' mp' ok where
    step: "verify_pieces sha1 fs (index # rest) (di, vc, mp) =
             verify_pieces sha1 fs rest
               (di\<lparr>pieces := (pieces di)[index := p'], downloaded_piece_count := dpc'\<rparr>,
                vc + (if ok then 1 else 0), mp')"
    and dl: "downloaded p' = ok"
    using verify_pieces_step [of sha1 fs index rest di vc mp] by blast
  let ?di = "di\<lparr>pieces := (pieces di)[index := p'], downloaded_piece_count := dpc'\<rparr>"
  let ?vc = "vc + (if ok then 1 else 0)"
  have "index \<notin> set rest" "index < length (pieces di)"
    using Cons.prems by simp_all
  then have here: "pieces (fst (verify_pieces sha1 fs rest (?di, ?vc, mp'))) ! index = p'"
    using verify_pieces_frame [of sha1 fs rest ?di ?vc mp'] by simp
  have "distinct rest" "\<forall>i\<in>set rest. i < length (pieces ?di)"
    using Cons.prems by simp_all
  from Cons.IH [OF this, of ?vc mp'] show ?case
    unfolding step by (simp add: here dl)
qed

lemma length_filter_eq_iff: "length (filter P xs) = length xs \<longleftrightarrow> (\<forall>x\<in>set xs. P x)"
  by (metis filter_True filter_id_conv length_filter_less less_irrefl)

lemma verify_existing_data_unfold:
  "pieces (verify_existing_data sha1 fs di) =
     (if filter (\<lambda>i. selected (pieces di ! i)) [0..<length (pieces di)] = [] then pieces di
      else pieces (fst (verify_pieces sha1 fs
             (filter (\<lambda>i. selected (pieces di ! i)) [0..<length (pieces di)])
             (di\<lparr>downloaded_piece_count := 0, interesting_pieces := {}\<rparr>, 0, []))))"
  "complete (verify_existing_data sha1 fs di) =
     (filter (\<lambda>i. selected (pieces di ! i)) [0..<length (pieces di)] \<noteq> [] \<and>
      fst (snd (verify_pieces sha1 fs
             (filter (\<lambda>i. selected (pieces di ! i)) [0..<length (pieces di)])
             (di\<lparr>downloaded_piece_count := 0, interesting_pieces := {}\<rparr>, 0, []))) =
        length (filter (\<lambda>i. selected (pieces di ! i)) [0..<length (pieces di)]) \<and>
      fst (snd (verify_pieces sha1 fs
             (filter (\<lambda>i. selected (pieces di ! i)) [0..<length (pieces di)])
             (di\<lparr>downloaded_piece_count := 0, interesting_pieces := {}\<rparr>, 0, []))) > 0)"
  by (simp_all add: verify_existing_data_def Let_def case_prod_beta)

lemma verify_existing_data_pieces:
  "length (pieces (verify_existing_data sha1 fs di)) = length (pieces di) \<and>
   (\<forall>i < length (pieces di).
      selected (pieces (verify_existing_data sha1 fs di) ! i) = selected (pieces di ! i))"
proof -
  let ?sel = "filter (\<lambda>i. selected (pieces di ! i)) [0..<length (pieces di)]"
  let ?di1 = "di\<lparr>downloaded_piece_count := 0, interesting_pieces := {}\<rparr>"
  show ?thesis
    using verify_pieces_frame [of sha1 fs ?sel ?di1 0 "[]"]
    unfolding verify_existing_data_unfold by simp
qed

lemma verify_existing_data_complete:
  "complete (verify_existing_data sha1 fs di) \<longleftrightarrow>
     (\<exists>i < length (pieces di). selected (pieces di ! i)) \<and>
     (\<forall>i < length (pieces di). selected (pieces di ! i) \<longrightarrow>
        downloaded (pieces (verify_existing_data sha1 fs di) ! i))"
proof -
  let ?sel = "filter (\<lambda>i. selected (pieces di ! i)) [0..<length (pieces di)]"
  let ?di1 = "di\<lparr>downloaded_piece_count := 0, interesting_pieces := {}\<rparr>"
  let ?r = "verify_pieces sha1 fs ?sel (?di1, 0, [])"
  have nonempty: "?sel \<noteq> [] \<longleftrightarrow> (\<exists>i < length (pieces di). selected (pieces di ! i))"
    by (auto simp: filter_empty_conv)
  show ?thesis
  proof (cases "?sel = []")
    case True
    with nonempty show ?thesis
      by (simp add: verify_existing_data_unfold)
  next
    case False
    have pcs: "pieces (verify_existing_data sha1 fs di) = pieces (fst ?r)"
      using False by (simp add: verify_existing_data_unfold)
    have cmp: "complete (verify_existing_data sha1 fs di) \<longleftrightarrow>
                 fst (snd ?r) = length ?sel \<and> fst (snd ?r) > 0"
      using False by (simp add: verify_existing_data_unfold)
    have "distinct ?sel" "\<forall>i\<in>set ?sel. i < length (pieces ?di1)"
      by simp_all
    from verify_pieces_count [OF this, of sha1 fs 0 "[]"]
    have cnt: "fst (snd ?r) = length (filter (\<lambda>i. downloaded (pieces (fst ?r) ! i)) ?sel)"
      by simp
    have "fst (snd ?r) = length ?sel \<longleftrightarrow> (\<forall>i\<in>set ?sel. downloaded (pieces (fst ?r) ! i))"
      unfolding cnt by (rule length_filter_eq_iff)
    moreover have "length ?sel > 0"
      using False by simp
    ultimately show ?thesis
      using nonempty False unfolding cmp pcs by auto
  qed
qed

lemma ex_info_pieces: "pieces (ex_info ps) = ps"
  by (simp add: ex_info_def)

lemma ex_piece_fields:
  "selected (ex_piece sel dl) = sel" "downloaded (ex_piece sel dl) = dl"
  "validating (ex_piece sel dl) = False"
  by (simp_all add: ex_piece_def)

lemma ex_verify_full:
  "verify_existing_data ex_sha1 ex_fs_full (ex_info [ex_piece True False, ex_piece True False]) =
     (ex_info [ex_piece True True, ex_piece True True])\<lparr>downloaded_piece_count := 2, complete := True\<rparr>"
  by (simp add: verify_existing_data_def ex_info_def ex_piece_def ex_fs_full_def ex_sha1_def
        Let_def fs_read_def get_real_piece_length_def piece_count_def mark_as_downloaded_def
        reset_content_def)

lemma ex_verify_half:
  "verify_existing_data ex_sha1 ex_fs_half (ex_info [ex_piece True True, ex_piece True True]) =
     (ex_info [ex_piece True True, ex_piece True False])
       \<lparr>downloaded_piece_count := 1, interesting_pieces := {1}\<rparr>"
  by (simp add: verify_existing_data_def ex_info_def ex_piece_def ex_fs_half_def ex_sha1_def
        Let_def fs_read_def get_real_piece_length_def piece_count_def mark_as_downloaded_def
        reset_content_def)

lemma ex_verify_unselected:
  "verify_existing_data ex_sha1 ex_fs_full (ex_info [ex_piece False True, ex_piece False True]) =
     ex_info [ex_piece False True, ex_piece False True]"
  by (simp add: verify_existing_data_def ex_info_def ex_piece_def)

text \<open>Claim C3, as stated: after the verification, \<open>complete\<close> holds exactly when every
  selected piece is downloaded, for every selection. With no piece selected every selected
  piece is downloaded, and \<open>complete\<close> is false.\<close>

theorem complete_false_on_empty_selection:
  "\<not> (complete (verify_existing_data ex_sha1 ex_fs_full
                 (ex_info [ex_piece False True, ex_piece False True])) \<longleftrightarrow>
      list_all (\<lambda>p. selected p \<longrightarrow> downloaded p)
        (pieces (verify_existing_data ex_sha1 ex_fs_full
                   (ex_info [ex_piece False True, ex_piece False True]))))"
  by (simp add: ex_verify_unselected ex_info_pieces ex_piece_fields) (simp add: ex_info_def)

text \<open>Claim C3, amended: after the verification, \<open>complete\<close> holds exactly when some piece is
  selected and every selected piece is downloaded.\<close>

theorem complete_iff_selected_nonempty_and_downloaded:
  "complete (verify_existing_data sha1 fs di) \<longleftrightarrow>
     list_ex selected (pieces (verify_existing_data sha1 fs di)) \<and>
     list_all (\<lambda>p. selected p \<longrightarrow> downloaded p) (pieces (verify_existing_data sha1 fs di))"
  using verify_existing_data_pieces [of sha1 fs di]
  by (auto simp: verify_existing_data_complete list_all_length list_ex_length)

theorem complete_iff_selected_nonempty_and_downloaded_witness:
  "complete (verify_existing_data ex_sha1 ex_fs_full
               (ex_info [ex_piece True False, ex_piece True False])) \<and>
   list_all downloaded (pieces (verify_existing_data ex_sha1 ex_fs_full
               (ex_info [ex_piece True False, ex_piece True False]))) \<and>
   \<not> complete (verify_existing_data ex_sha1 ex_fs_half
               (ex_info [ex_piece True True, ex_piece True True]))"
proof -
  have "complete (verify_existing_data ex_sha1 ex_fs_full
               (ex_info [ex_piece True False, ex_piece True False]))"
    by (simp add: ex_verify_full)
  moreover
  from this [unfolded complete_iff_selected_nonempty_and_downloaded]
  have "list_all downloaded (pieces (verify_existing_data ex_sha1 ex_fs_full
               (ex_info [ex_piece True False, ex_piece True False])))"
    by (simp add: ex_verify_full ex_info_pieces ex_piece_fields)
  moreover
  have "\<not> list_all (\<lambda>p. selected p \<longrightarrow> downloaded p)
            (pieces (verify_existing_data ex_sha1 ex_fs_half
               (ex_info [ex_piece True True, ex_piece True True])))"
    by (simp add: ex_verify_half ex_info_pieces ex_piece_fields)
  then have "\<not> complete (verify_existing_data ex_sha1 ex_fs_half
               (ex_info [ex_piece True True, ex_piece True True]))"
    unfolding complete_iff_selected_nonempty_and_downloaded by simp
  ultimately show ?thesis by simp
qed

section \<open>Properties of the peer wire client\<close>

declare run.simps [simp del]

subsection \<open>The choke and interest setters\<close>

lemma send_message_empty:
  "send_message m [] c =
     (None, c\<lparr>writer := writer c @ [0, 0, 0, 1, word_of_nat (message_value m)]\<rparr>)"
  by (cases m) (simp_all add: send_message_def pack_uint_def upt_conv_Cons)

text \<open>Claim C8. On a connected session, assigning \<open>am_choking\<close> or \<open>am_interested\<close> a value
  different from the current one stores it and writes exactly one frame: choke (0) or
  unchoke (1), interested (2) or not-interested (3), each of length 1. Assigning the current
  value changes nothing and writes nothing; so a second assignment of the same value has no
  effect.\<close>

theorem setters_emit_frame_on_flip:
  assumes "connected c"
  shows "set_am_choking v c =
           (None, if am_choking c = v then c
                  else c\<lparr>am_choking := v, writer := writer c @ [0, 0, 0, 1, if v then 0 else 1]\<rparr>) \<and>
         set_am_interested v c =
           (None, if am_interested c = v then c
                  else c\<lparr>am_interested := v,
                         writer := writer c @ [0, 0, 0, 1, if v then 2 else 3]\<rparr>) \<and>
         set_am_choking v (snd (set_am_choking v c)) = (None, snd (set_am_choking v c)) \<and>
         set_am_interested v (snd (set_am_interested v c)) = (None, snd (set_am_interested v c))"
  using assms
  by (simp add: set_am_choking_def set_am_interested_def check_connect_def send_message_empty)

theorem setters_emit_frame_on_flip_witness:
  "connected ex_client \<and> am_choking ex_client \<and>
   writer (snd (set_am_choking False ex_client)) = [0, 0, 0, 1, 1] \<and>
   writer (snd (set_am_choking True ex_client)) = [] \<and>
   writer (snd (set_am_interested True ex_client)) = [0, 0, 0, 1, 2] \<and>
   set_am_interested True (snd (set_am_interested True ex_client)) =
     (None, snd (set_am_interested True ex_client))"
proof -
  have c: "connected ex_client"
    by (simp add: ex_client_def)
  note off = setters_emit_frame_on_flip [OF c, of False]
  note on = setters_emit_frame_on_flip [OF c, of True]
  have "am_choking ex_client"
    by (simp add: ex_client_def new_PeerTCPClient_def)
  moreover have "writer (snd (set_am_choking False ex_client)) = [0, 0, 0, 1, 1]"
    unfolding off [THEN conjunct1] by (simp add: ex_client_def new_PeerTCPClient_def)
  moreover have "writer (snd (set_am_choking True ex_client)) = []"
    unfolding on [THEN conjunct1] by (simp add: ex_client_def new_PeerTCPClient_def)
  moreover have "writer (snd (set_am_interested True ex_client)) = [0, 0, 0, 1, 2]"
    unfolding on [THEN conjunct2, THEN conjunct1]
    by (simp add: ex_client_def new_PeerTCPClient_def)
  moreover note on [THEN conjunct2, THEN conjunct2, THEN conjunct2] c
  ultimately show ?thesis by blast
qed

subsection \<open>Unknown message ids\<close>

lemma MessageType_of_unknown: "9 < v \<Longrightarrow> MessageType_of v = None"
  by (simp add: MessageType_of_def)

lemma MessageType_of_value: "MessageType_of (message_value m) = Some m"
  by (cases m) (simp_all add: MessageType_of_def)

lemma receive_message_frame:
  assumes "length pre = 4" "unpack_uint pre = Suc (length payload)"
      and "Suc (length payload) \<le> MAX_MESSAGE_LENGTH"
  shows "receive_message (pre @ b # payload @ rest) =
           Inr (case MessageType_of (unat b) of None \<Rightarrow> None | Some m \<Rightarrow> Some (m, payload), rest)"
  using assms
  by (simp add: receive_message_def readexactly_def Let_def split: option.splits)

text \<open>Claim C9. A frame with a correct length prefix (at most \<open>MAX_MESSAGE_LENGTH\<close>) whose
  message id is above 9 makes \<open>_receive_message\<close> return \<open>None\<close>, as a keep-alive does, and
  the receive loop goes on with the rest of the stream in the same state.\<close>

theorem unknown_message_id_discarded:
  assumes "length pre = 4" and "unpack_uint pre = Suc (length payload)"
      and "Suc (length payload) \<le> MAX_MESSAGE_LENGTH" and "9 < unat b"
  shows "receive_message (pre @ b # payload @ rest) = Inr (None, rest) \<and>
         receive_message ([0, 0, 0, 0] @ rest) = Inr (None, rest) \<and>
         run s (pre @ b # payload @ rest) = run s rest"
proof -
  have unknown: "receive_message (pre @ b # payload @ rest) = Inr (None, rest)"
    using receive_message_frame [OF assms(1-3), of b rest] MessageType_of_unknown [OF assms(4)]
    by simp
  moreover have "receive_message ([0, 0, 0, 0] @ rest) = Inr (None, rest)"
    by (simp add: receive_message_def readexactly_def unpack_uint_def)
  moreover have "run s (pre @ b # payload @ rest) = run s rest"
    by (subst run.simps) (simp add: unknown)
  ultimately show ?thesis by simp
qed

theorem unknown_message_id_discarded_witness:
  "receive_message ([0, 0, 0, 2] @ 200 # [1] @ [0, 0, 0, 1, 1]) = Inr (None, [0, 0, 0, 1, 1]) \<and>
   run (ex_session []) ([0, 0, 0, 2] @ 200 # [1] @ [0, 0, 0, 1, 1]) =
     run (ex_session []) [0, 0, 0, 1, 1] \<and>
   peer_choking (client (snd (run (ex_session []) ([0, 0, 0, 2] @ 200 # [1] @ [0, 0, 0, 1, 1])))) = False"
proof -
  have a: "length [0, 0, 0, 2 :: byte] = 4" "unpack_uint [0, 0, 0, 2] = Suc (length [1 :: byte])"
    "Suc (length [1 :: byte]) \<le> MAX_MESSAGE_LENGTH" "9 < unat (200 :: byte)"
    by (simp_all add: unpack_uint_def MAX_MESSAGE_LENGTH_def)
  have r: "run (ex_session []) [0, 0, 0, 1, 1] =
             (IncompleteReadError, (ex_session [])\<lparr>client := (client (ex_session []))\<lparr>peer_choking := False\<rparr>\<rparr>)"
    apply (subst run.simps)
    apply (simp add: receive_message_def readexactly_def unpack_uint_def MAX_MESSAGE_LENGTH_def
        MessageType_of_def dispatch_def handle_setting_states_def check_payload_len_def)
    apply (subst run.simps)
    apply (simp add: receive_message_def readexactly_def)
    done
  from unknown_message_id_discarded [OF a, of "[0, 0, 0, 1, 1]" "ex_session []"] r
  show ?thesis by simp
qed

subsection \<open>Blocks for pieces that are validating or downloaded\<close>

lemma ex_session_fields:
  "pieces (download_info (ex_session ps)) = ps"
  "piece_count (download_info (ex_session ps)) = length ps"
  "piece_length (download_info (ex_session ps)) = 4"
  "total_size (download_info (ex_session ps)) = 8"
  by (simp_all add: ex_session_def ex_info_def piece_count_def)

text \<open>Claim C4. A piece message (its payload holds at least the piece index and the offset)
  for a piece of the torrent that is validating or downloaded leaves the whole session as
  it was: the client and its download counter, the download info with every piece's
  \<open>blocks_present\<close> and the session statistics, and the file store.\<close>

theorem block_for_finished_piece_ignored:
  assumes "8 \<le> length payload"
      and "unpack_uint (field 0 4 payload) < piece_count (download_info s)"
      and "validating (pieces (download_info s) ! unpack_uint (field 0 4 payload)) \<or>
           downloaded (pieces (download_info s) ! unpack_uint (field 0 4 payload))"
  shows "snd (handle_block payload s) = s"
  using assms
  by (auto simp: handle_block_def Let_def split: option.splits)

theorem block_for_finished_piece_ignored_witness:
  "snd (handle_block [0, 0, 0, 0, 0, 0, 0, 0, 9, 9]
          ((ex_session [ex_piece True True, ex_piece True False])
             \<lparr>client := ex_client\<lparr>am_interested := True\<rparr>\<rparr>)) =
     (ex_session [ex_piece True True, ex_piece True False])
       \<lparr>client := ex_client\<lparr>am_interested := True\<rparr>\<rparr> \<and>
   c_downloaded (client (snd (handle_block [0, 0, 0, 1, 0, 0, 0, 0, 9, 9]
          ((ex_session [ex_piece True True, ex_piece True False])
             \<lparr>client := ex_client\<lparr>am_interested := True\<rparr>\<rparr>)))) = 2"
proof -
  let ?s = "(ex_session [ex_piece True True, ex_piece True False])
              \<lparr>client := ex_client\<lparr>am_interested := True\<rparr>\<rparr>"
  have idx: "unpack_uint (field 0 4 [0, 0, 0, 0, 0, 0, 0, 0, 9, 9]) = 0"
    by (simp add: field_def unpack_uint_def)
  have "snd (handle_block [0, 0, 0, 0, 0, 0, 0, 0, 9, 9] ?s) = ?s"
    by (rule block_for_finished_piece_ignored)
       (simp_all add: idx ex_session_fields ex_piece_fields)
  moreover
  have "c_downloaded (client (snd (handle_block [0, 0, 0, 1, 0, 0, 0, 0, 9, 9] ?s))) = 2"
    by (simp add: handle_block_def field_def unpack_uint_def check_position_range_def
          ex_session_fields ex_piece_fields Let_def)
       (simp add: ex_session_def ex_fs_full_def fs_write_def ex_client_def new_PeerTCPClient_def)
  ultimately show ?thesis by simp
qed

subsection \<open>Requests\<close>

text \<open>Packing an unpacked big-endian integer gives back its bytes.\<close>

lemma unpack_uint_snoc: "unpack_uint (bs @ [b]) = 256 * unpack_uint bs + unat b"
  by (simp add: unpack_uint_def)

lemma unpack_uint_bound: "unpack_uint bs < 256 ^ length bs"
proof (induction bs rule: rev_induct)
  case Nil
  then show ?case by (simp add: unpack_uint_def)
next
  case (snoc b bs)
  have "unat b < 256"
    using unsigned_less [of b, where ?'a = nat] by simp
  with snoc show ?case
    by (simp add: unpack_uint_snoc)
qed

lemma pack_digits_unpack:
  "map (\<lambda>k. word_of_int (int (unpack_uint bs) div 256 ^ k)) (rev [0..<length bs]) = bs"
proof (induction bs rule: rev_induct)
  case Nil
  then show ?case by simp
next
  case (snoc b bs)
  let ?v = "int (unpack_uint bs)"
  have b: "0 \<le> uint b" "uint b < 256"
    using uint_lt2p [of b] by simp_all
  have shift: "(256 * ?v + uint b) div 256 ^ Suc k = ?v div 256 ^ k" for k
  proof -
    have "(256 * ?v + uint b) div (256 * 256 ^ k) = ((256 * ?v + uint b) div 256) div 256 ^ k"
      by (simp add: zdiv_zmult2_eq)
    also have "(256 * ?v + uint b) div 256 = ?v"
      using b by simp
    finally show ?thesis by simp
  qed
  have last: "(word_of_int (256 * ?v + uint b) :: byte) = b"
  proof -
    have "(word_of_int (256 * ?v + uint b) :: byte) =
            word_of_int 256 * word_of_int ?v + word_of_int (uint b)"
      by simp
    also have "(word_of_int 256 :: byte) = 0"
      by simp
    finally show ?thesis by simp
  qed
  have "map (\<lambda>k. word_of_int (int (unpack_uint (bs @ [b])) div 256 ^ k))
          (rev [0..<length (bs @ [b])]) =
        map (\<lambda>k. word_of_int ((256 * ?v + uint b) div 256 ^ k))
          (rev (0 # map Suc [0..<length bs]))"
    by (simp add: unpack_uint_snoc upt_conv_Cons map_Suc_upt del: upt_Suc)
  also have "\<dots> = map (\<lambda>k. word_of_int (?v div 256 ^ k)) (rev [0..<length bs]) @ [b]"
    unfolding rev.simps list.map map_append rev_map
    by (simp only: power_0 div_by_1 last map_map o_def shift)
  finally show ?case
    by (simp add: snoc.IH)
qed

lemma pack_unpack: "length bs = n \<Longrightarrow> pack_uint n (int (unpack_uint bs)) = Inr bs"
proof -
  assume n: "length bs = n"
  have "int (unpack_uint bs) < 2 ^ (8 * n)"
  proof -
    have "unpack_uint bs < 256 ^ n"
      using unpack_uint_bound [of bs] n by simp
    also have "(256::nat) ^ n = 2 ^ (8 * n)"
      by (simp add: power_mult)
    finally have "int (unpack_uint bs) < int (2 ^ (8 * n))"
      by (rule iffD2 [OF of_nat_less_iff])
    then show ?thesis by simp
  qed
  then show ?thesis
    using pack_digits_unpack [of bs] n by (simp add: pack_uint_def)
qed

lemma pack_request_header:
  assumes "length payload = 12"
  shows "struct_pack [(4, int (unpack_uint (field 0 4 payload))),
                      (4, int (unpack_uint (field 4 4 payload)))] = Inr (take 8 payload)"
proof -
  have a: "length (field 0 4 payload) = 4" "length (field 4 4 payload) = 4"
    using assms by (simp_all add: field_def)
  have "field 0 4 payload @ field 4 4 payload = take 8 payload"
    using assms by (simp add: field_def take_add [of 4 4 payload, simplified])
  then show ?thesis
    by (simp add: pack_unpack [OF a(1)] pack_unpack [OF a(2)])
qed

lemma receive_request_frame:
  assumes "length payload = 12"
  shows "receive_message ([0, 0, 0, 13, 6] @ payload @ rest) = Inr (Some (Request, payload), rest)"
proof -
  have "receive_message ([0, 0, 0, 13] @ 6 # payload @ rest) =
          Inr (case MessageType_of (unat (6 :: byte)) of
                 None \<Rightarrow> None | Some m \<Rightarrow> Some (m, payload), rest)"
    by (rule receive_message_frame)
       (simp_all add: assms unpack_uint_def MAX_MESSAGE_LENGTH_def)
  then show ?thesis
    by (simp add: MessageType_of_def)
qed

lemma run_request_frame:
  assumes "length payload = 12"
  shows "run s ([0, 0, 0, 13, 6] @ payload @ rest) =
           (case handle_requests Request payload s of
              (Some e, s') \<Rightarrow> (e, s') | (None, s') \<Rightarrow> run s' rest)"
  by (subst run.simps) (simp add: receive_request_frame [OF assms, simplified] dispatch_def)

lemma ex_big_fields:
  "piece_count (download_info ex_big_session) = 1"
  "piece_length (download_info ex_big_session) = 262144"
  "total_size (download_info ex_big_session) = 262144"
  "downloaded (pieces (download_info ex_big_session) ! 0)"
  "\<not> am_choking (client ex_big_session)" "peer_interested (client ex_big_session)"
  "\<not> io_failure (file_structure ex_big_session)"
  "content (file_structure ex_big_session) = replicate 262144 0"
  "writer (client ex_big_session) = []"
  by (simp_all add: ex_big_session_def ex_info_def ex_piece_def piece_count_def ex_client_def
        new_PeerTCPClient_def)

text \<open>Claim C2, as stated: a request whose length exceeds \<open>2^17\<close> is rejected silently and
  the session keeps running. On an unchoked, interested peer asking 131073 bytes of a
  downloaded piece of 256 KiB, the handler raises \<open>ValueError\<close>, and the receive loop ends
  with it, leaving the keep-alive that follows unread.\<close>

theorem oversize_request_ends_session:
  "MAX_REQUEST_LENGTH < unpack_uint (field 8 4 [0, 0, 0, 0, 0, 0, 0, 0, 0, 2, 0, 1]) \<and>
   handle_requests Request [0, 0, 0, 0, 0, 0, 0, 0, 0, 2, 0, 1] ex_big_session =
     (Some ValueError, ex_big_session) \<and>
   run ex_big_session ([0, 0, 0, 13, 6] @ [0, 0, 0, 0, 0, 0, 0, 0, 0, 2, 0, 1] @ [0, 0, 0, 0]) =
     (ValueError, ex_big_session)"
proof -
  let ?p = "[0, 0, 0, 0, 0, 0, 0, 0, 0, 2, 0, 1] :: bytes"
  have f: "unpack_uint (field 0 4 ?p) = 0" "unpack_uint (field 4 4 ?p) = 0"
    "unpack_uint (field 8 4 ?p) = 131073"
    by (simp_all add: field_def unpack_uint_def)
  have h: "handle_requests Request ?p ex_big_session = (Some ValueError, ex_big_session)"
    by (simp add: handle_requests_def f Let_def check_position_range_def ex_big_fields
          MAX_REQUEST_LENGTH_def)
  have "run ex_big_session ([0, 0, 0, 13, 6] @ ?p @ [0, 0, 0, 0]) = (ValueError, ex_big_session)"
    by (subst run_request_frame) (simp_all add: h)
  with h f show ?thesis
    by (simp add: MAX_REQUEST_LENGTH_def)
qed

text \<open>Claim C2, amended. For a request message with a 12-byte payload whose block range lies
  within the piece and the content: if the requested length exceeds \<open>2^17\<close> the handler
  raises \<open>ValueError\<close>, which ends the session, with no reply and the state unchanged;
  otherwise, if we are choking the peer, or the peer is not interested, or the piece is not
  downloaded, no reply is sent, the state is unchanged and the receive loop goes on;
  otherwise the block is read from the file store and one piece message (id 7, the piece
  index and offset of the request, the block) is written, the upload counter grows by the
  requested length, and the receive loop goes on.\<close>

theorem request_handling:
  fixes payload :: bytes and s :: session
  defines "idx \<equiv> unpack_uint (field 0 4 payload)"
      and "bgn \<equiv> unpack_uint (field 4 4 payload)"
      and "len \<equiv> unpack_uint (field 8 4 payload)"
  assumes size: "length payload = 12"
      and range: "check_position_range
                    \<lparr>piece_index = idx, block_begin = bgn, block_length = len\<rparr>
                    (download_info s) = None"
  shows "(MAX_REQUEST_LENGTH < len \<longrightarrow>
            handle_requests Request payload s = (Some ValueError, s) \<and>
            run s ([0, 0, 0, 13, 6] @ payload @ rest) = (ValueError, s)) \<and>
         (len \<le> MAX_REQUEST_LENGTH \<and>
          (am_choking (client s) \<or> \<not> peer_interested (client s) \<or>
           \<not> downloaded (pieces (download_info s) ! idx)) \<longrightarrow>
            handle_requests Request payload s = (None, s) \<and>
            run s ([0, 0, 0, 13, 6] @ payload @ rest) = run s rest) \<and>
         (len \<le> MAX_REQUEST_LENGTH \<and> \<not> am_choking (client s) \<and> peer_interested (client s) \<and>
          downloaded (pieces (download_info s) ! idx) \<and> \<not> io_failure (file_structure s) \<longrightarrow>
            (\<exists>s' pre block.
               handle_requests Request payload s = (None, s') \<and>
               block = take len (drop (idx * piece_length (download_info s) + bgn)
                                   (content (file_structure s))) \<and>
               pack_uint 4 (int (length block) + 9) = Inr pre \<and>
               writer (client s') = writer (client s) @ pre @ [7] @ take 8 payload @ block \<and>
               c_uploaded (client s') = c_uploaded (client s) + len \<and>
               run s ([0, 0, 0, 13, 6] @ payload @ rest) = run s' rest))"
proof (intro conjI impI)
  assume big: "MAX_REQUEST_LENGTH < len"
  then show over: "handle_requests Request payload s = (Some ValueError, s)"
    using size range by (simp add: handle_requests_def Let_def idx_def bgn_def len_def)
  show "run s ([0, 0, 0, 13, 6] @ payload @ rest) = (ValueError, s)"
    by (simp add: run_request_frame [OF size, simplified] over)
next
  assume rej: "len \<le> MAX_REQUEST_LENGTH \<and>
          (am_choking (client s) \<or> \<not> peer_interested (client s) \<or>
           \<not> downloaded (pieces (download_info s) ! idx))"
  then show silent: "handle_requests Request payload s = (None, s)"
    using size range by (auto simp: handle_requests_def Let_def idx_def bgn_def len_def)
  show "run s ([0, 0, 0, 13, 6] @ payload @ rest) = run s rest"
    by (simp add: run_request_frame [OF size, simplified] silent)
next
  assume ok: "len \<le> MAX_REQUEST_LENGTH \<and> \<not> am_choking (client s) \<and> peer_interested (client s) \<and>
          downloaded (pieces (download_info s) ! idx) \<and> \<not> io_failure (file_structure s)"
  let ?block = "take len (drop (idx * piece_length (download_info s) + bgn)
                            (content (file_structure s)))"
  let ?req = "\<lparr>piece_index = idx, block_begin = bgn, block_length = len\<rparr>"
  have "length ?block \<le> len"
    by simp
  with ok have "length ?block \<le> 2 ^ 17"
    unfolding MAX_REQUEST_LENGTH_def by linarith
  then obtain pre where pre: "pack_uint 4 (int (length ?block) + 9) = Inr pre"
    by (simp add: pack_uint_def)
  have hdr: "struct_pack [(4, int idx), (4, int bgn)] = Inr (take 8 payload)"
    unfolding idx_def bgn_def by (rule pack_request_header [OF size])
  have msg: "send_message Piece (take 8 payload @ ?block) c =
               (None, c\<lparr>writer := writer c @ pre @ [7] @ take 8 payload @ ?block\<rparr>)" for c
    using pre size by (simp add: send_message_def pack_uint_def upt_conv_Cons add.commute)
  have sb: "send_block ?req s =
              (None, s\<lparr>client := (client s)\<lparr>writer := writer (client s) @ pre @ [7] @ take 8 payload @ ?block,
                                          c_uploaded := c_uploaded (client s) + len\<rparr>,
                        download_info := (download_info s)
                          \<lparr>session_statistics :=
                             add_uploaded (peer (client s)) len
                               (session_statistics (download_info s))\<rparr>\<rparr>)"
    using ok hdr by (simp add: send_block_def fs_read_def msg)
  have hr: "handle_requests Request payload s = send_block ?req s"
    using size range ok by (simp add: handle_requests_def Let_def idx_def bgn_def len_def)
  show "\<exists>s' pre block.
               handle_requests Request payload s = (None, s') \<and>
               block = take len (drop (idx * piece_length (download_info s) + bgn)
                                   (content (file_structure s))) \<and>
               pack_uint 4 (int (length block) + 9) = Inr pre \<and>
               writer (client s') = writer (client s) @ pre @ [7] @ take 8 payload @ block \<and>
               c_uploaded (client s') = c_uploaded (client s) + len \<and>
               run s ([0, 0, 0, 13, 6] @ payload @ rest) = run s' rest"
    using pre by (simp add: run_request_frame [OF size, simplified] hr sb)
qed

theorem request_handling_witness:
  "length [0, 0, 0, 0, 0, 0, 0, 0, 0, 0, 0, 4 :: byte] = 12 \<and>
   check_position_range \<lparr>piece_index = 0, block_begin = 0, block_length = 4\<rparr>
     (download_info ex_big_session) = None \<and>
   fst (handle_requests Request [0, 0, 0, 0, 0, 0, 0, 0, 0, 0, 0, 4] ex_big_session) = None \<and>
   writer (client (snd (handle_requests Request [0, 0, 0, 0, 0, 0, 0, 0, 0, 0, 0, 4] ex_big_session))) =
     [0, 0, 0, 13, 7, 0, 0, 0, 0, 0, 0, 0, 0, 0, 0, 0, 0] \<and>
   am_choking ex_client \<and>
   handle_requests Request [0, 0, 0, 0, 0, 0, 0, 0, 0, 0, 0, 4] (ex_big_session\<lparr>client := ex_client\<rparr>) =
     (None, ex_big_session\<lparr>client := ex_client\<rparr>)"
proof -
  let ?p = "[0, 0, 0, 0, 0, 0, 0, 0, 0, 0, 0, 4] :: bytes"
  have f: "unpack_uint (field 0 4 ?p) = 0" "unpack_uint (field 4 4 ?p) = 0"
    "unpack_uint (field 8 4 ?p) = 4"
    by (simp_all add: field_def unpack_uint_def)
  have size: "length ?p = 12"
    by simp
  have range: "check_position_range
       \<lparr>piece_index = unpack_uint (field 0 4 ?p), block_begin = unpack_uint (field 4 4 ?p),
          block_length = unpack_uint (field 8 4 ?p)\<rparr> (download_info ex_big_session) = None"
    by (simp add: f check_position_range_def ex_big_fields)
  have cond: "unpack_uint (field 8 4 ?p) \<le> MAX_REQUEST_LENGTH \<and>
      \<not> am_choking (client ex_big_session) \<and> peer_interested (client ex_big_session) \<and>
      downloaded (pieces (download_info ex_big_session) ! unpack_uint (field 0 4 ?p)) \<and>
      \<not> io_failure (file_structure ex_big_session)"
    by (simp add: f ex_big_fields MAX_REQUEST_LENGTH_def)
  from request_handling [OF size range, THEN conjunct2, THEN conjunct2, rule_format, OF cond,
      of "[]"]
  obtain s' pre where
    r: "handle_requests Request ?p ex_big_session = (None, s')" and
    pre: "pack_uint 4 (int (length (take 4 (replicate 262144 (0 :: byte)))) + 9) = Inr pre" and
    w: "writer (client s') = pre @ [7] @ take 8 ?p @ take 4 (replicate 262144 0)"
    by (auto simp: f ex_big_fields)
  from pre have "pre = [0, 0, 0, 13]"
    by (simp add: pack_uint_def upt_conv_Cons)
  moreover have "replicate 4 (0 :: byte) = [0, 0, 0, 0]"
    by (simp add: numeral_eq_Suc)
  then have "take 4 (replicate 262144 (0 :: byte)) = [0, 0, 0, 0]"
    by simp
  moreover have choking: "am_choking ex_client"
    by (simp add: ex_client_def new_PeerTCPClient_def)
  have "handle_requests Request ?p (ex_big_session\<lparr>client := ex_client\<rparr>) =
          (None, ex_big_session\<lparr>client := ex_client\<rparr>)"
    by (rule request_handling [where s = "ex_big_session\<lparr>client := ex_client\<rparr>" and rest = "[]",
          OF size, THEN conjunct2, THEN conjunct1, rule_format, THEN conjunct1])
       (simp_all add: f check_position_range_def ex_big_fields MAX_REQUEST_LENGTH_def choking)
  ultimately show ?thesis
    using r w range choking by (simp add: f)
qed

subsection \<open>Bit arrays and the bitfield sent after the handshake\<close>

lemma length_bits_of_byte: "length (bits_of_byte b) = 8"
  by (simp add: bits_of_byte_def)

lemma length_frombytes: "length (frombytes bs) = 8 * length bs"
  by (induction bs) (simp_all add: frombytes_def length_bits_of_byte)

lemma bits_of_byte_of_bits:
  assumes "length bs = 8"
  shows "bits_of_byte (byte_of_bits bs) = bs"
proof (rule nth_equalityI)
  show "length (bits_of_byte (byte_of_bits bs)) = length bs"
    using assms by (simp add: length_bits_of_byte)
next
  fix i
  assume "i < length (bits_of_byte (byte_of_bits bs))"
  then have i: "i < 8"
    by (simp add: length_bits_of_byte)
  then have "rev bs ! (7 - i) = bs ! i"
    using assms by (simp add: rev_nth)
  moreover have "7 - i < 8"
    by arith
  ultimately show "bits_of_byte (byte_of_bits bs) ! i = bs ! i"
    using i assms by (simp add: bits_of_byte_def byte_of_bits_def bit_horner_sum_bit_word_iff)
qed

lemma frombytes_Cons: "frombytes (b # bs) = bits_of_byte b @ frombytes bs"
  by (simp add: frombytes_def)

lemma frombytes_tobytes:
  "\<exists>n < 8. frombytes (tobytes arr) = arr @ replicate n False"
proof (induction arr rule: tobytes.induct)
  case 1
  show ?case by (simp add: frombytes_def)
next
  case (2 b bs)
  then obtain n where n: "n < 8" and
    IH: "frombytes (tobytes (drop 7 bs)) = drop 7 bs @ replicate n False"
    by blast
  have len: "length (take 8 (b # bs @ replicate 7 False)) = 8"
    by simp
  have head: "frombytes (tobytes (b # bs)) =
                take 8 (b # bs @ replicate 7 False) @ frombytes (tobytes (drop 7 bs))"
    by (simp only: tobytes.simps frombytes_Cons bits_of_byte_of_bits [OF len])
  show ?case
  proof (cases "7 \<le> length bs")
    case True
    then have "take 8 (b # bs @ replicate 7 False) = b # take 7 bs"
      by (simp add: take_Cons')
    moreover have "take 7 bs @ drop 7 bs @ replicate n False = bs @ replicate n False"
      by (metis append_assoc append_take_drop_id)
    ultimately have "frombytes (tobytes (b # bs)) = (b # bs) @ replicate n False"
      using head IH by simp
    with n show ?thesis
      by blast
  next
    case False
    then have short: "take 8 (b # bs @ replicate 7 False) = b # bs @ replicate (7 - length bs) False"
      by (simp add: take_Cons')
    from False have "drop 7 bs = []"
      by simp
    with head short show ?thesis
      by (intro exI [of _ "7 - length bs"]) (simp add: frombytes_def)
  qed
qed

lemma length_tobytes: "length (tobytes arr) = (length arr + 7) div 8"
proof (induction arr rule: tobytes.induct)
  case 1
  show ?case by simp
next
  case (2 b bs)
  then show ?case
    by (cases "7 \<le> length bs") (simp_all add: div_eq_0_iff)
qed

lemma bitfield_bits:
  "i < length arr \<Longrightarrow> frombytes (tobytes arr) ! i = arr ! i"
  "length arr \<le> i \<Longrightarrow> i < 8 * length (tobytes arr) \<Longrightarrow> \<not> frombytes (tobytes arr) ! i"
proof -
  obtain n where n: "frombytes (tobytes arr) = arr @ replicate n False"
    using frombytes_tobytes [of arr] by blast
  show "i < length arr \<Longrightarrow> frombytes (tobytes arr) ! i = arr ! i"
    by (simp add: n nth_append)
  assume "length arr \<le> i" "i < 8 * length (tobytes arr)"
  moreover have "length (frombytes (tobytes arr)) = 8 * length (tobytes arr)"
    by (rule length_frombytes)
  ultimately show "\<not> frombytes (tobytes arr) ! i"
    by (simp add: n nth_append)
qed

lemma send_bitfield_result:
  assumes "send_bitfield s = (None, s')"
  shows "(downloaded_piece_count (download_info s) = 0 \<longrightarrow> s' = s) \<and>
         (downloaded_piece_count (download_info s) \<noteq> 0 \<longrightarrow>
            (\<exists>pre. pack_uint 4 (int (length (tobytes (map downloaded (pieces (download_info s))))) + 1)
                     = Inr pre \<and>
                   s' = s\<lparr>client := (client s)\<lparr>writer := writer (client s) @ pre @ [5] @
                           tobytes (map downloaded (pieces (download_info s)))\<rparr>\<rparr>))"
  using assms
  by (auto simp: send_bitfield_def send_message_def Let_def pack_uint_def upt_conv_Cons
        split: if_splits sum.splits)

lemma connect_success:
  assumes "connect di fs inp c = (None, s', rest)"
  shows "\<exists>c' s1. send_bitfield \<lparr>client = c', download_info = di, file_structure = fs\<rparr> = (None, s1) \<and>
           s' = s1\<lparr>client := (client s1)\<lparr>connected := True\<rparr>\<rparr> \<and>
           piece_owned c' = replicate (piece_count di) False \<and>
           writer c' = writer c @ HANDSHAKE_DATA @ RESERVED_BYTES @ info_hash di @ our_peer_id c"
  using assms
  apply (auto simp: connect_def Let_def populate_info_def send_protocol_data_def receive_info_def
        split: sum.splits prod.splits if_splits option.splits)
   apply (rule exI, rule exI, rule conjI, assumption, simp)+
  done

lemma connect_establishes_session:
  assumes "connect di fs inp c = (None, s', rest)"
  shows "connected (client s') \<and> download_info s' = di \<and>
         length (piece_owned (client s')) = piece_count (download_info s')"
proof -
  from connect_success [OF assms] obtain c' s1 where
    sb: "send_bitfield \<lparr>client = c', download_info = di, file_structure = fs\<rparr> = (None, s1)" and
    s': "s' = s1\<lparr>client := (client s1)\<lparr>connected := True\<rparr>\<rparr>" and
    po: "piece_owned c' = replicate (piece_count di) False"
    by blast
  from send_bitfield_result [OF sb] have
    "download_info s1 = di \<and> piece_owned (client s1) = piece_owned c'"
    by (cases "downloaded_piece_count di = 0") auto
  with s' po show ?thesis
    by simp
qed

lemma confirm_info_hash_bitfield:
  assumes "confirm_info_hash di fs c = (None, s')"
  shows "(downloaded_piece_count di = 0 \<longrightarrow>
            writer (client s') = writer c @ info_hash di @ our_peer_id c) \<and>
         (downloaded_piece_count di \<noteq> 0 \<longrightarrow>
            (\<exists>pre. pack_uint 4 (int (length (tobytes (map downloaded (pieces di)))) + 1) = Inr pre \<and>
                   writer (client s') =
                     writer c @ info_hash di @ our_peer_id c @ pre @ [5] @
                     tobytes (map downloaded (pieces di))))"
proof -
  from assms obtain s1 where
    sb: "send_bitfield (populate_info di fs c) = (None, s1)" and
    s': "s' = s1\<lparr>client := (client s1)\<lparr>connected := True\<rparr>\<rparr>"
    by (auto simp: confirm_info_hash_def split: prod.splits option.splits)
  note r = send_bitfield_result [OF sb]
  show ?thesis
  proof (cases "downloaded_piece_count di = 0")
    case True
    with r have "s1 = populate_info di fs c"
      by (simp add: populate_info_def)
    with True s' show ?thesis
      by (simp add: populate_info_def)
  next
    case False
    with r obtain pre where
      "pack_uint 4 (int (length (tobytes (map downloaded (pieces di)))) + 1) = Inr pre"
      "s1 = (populate_info di fs c)
              \<lparr>client := (client (populate_info di fs c))
                 \<lparr>writer := writer (client (populate_info di fs c)) @ pre @ [5] @
                             tobytes (map downloaded (pieces di))\<rparr>\<rparr>"
      by (auto simp: populate_info_def)
    with False s' show ?thesis
      by (simp add: populate_info_def)
  qed
qed

lemma ex_byte: "byte_of_bits (True # False # replicate 6 False) = 128"
  by (simp add: numeral_eq_Suc byte_of_bits_def)

lemma length_HANDSHAKE_DATA: "length HANDSHAKE_DATA = 20"
  by (simp add: HANDSHAKE_DATA_def)

lemma length_RESERVED_BYTES: "length RESERVED_BYTES = 8"
  by (simp add: RESERVED_BYTES_def)

lemma ex_connect_half:
  "fst (connect ex_half_info ex_fs_full ex_handshake
          (new_PeerTCPClient (replicate 20 3) ex_peer)) = None"
  "writer (client (fst (snd (connect ex_half_info ex_fs_full ex_handshake
          (new_PeerTCPClient (replicate 20 3) ex_peer))))) =
     HANDSHAKE_DATA @ RESERVED_BYTES @ replicate 20 1 @ replicate 20 3 @ [0, 0, 0, 2, 5, 128]"
  by (simp_all add: connect_def receive_protocol_data_def readexactly_def
        length_HANDSHAKE_DATA length_RESERVED_BYTES ex_handshake_def ex_half_info_def
        receive_info_def SHA1_DIGEST_LEN_def populate_info_def send_protocol_data_def
        new_PeerTCPClient_def ex_peer_def Let_def send_bitfield_def ex_info_def ex_piece_def ex_byte
        send_message_def pack_uint_def upt_conv_Cons close_def)

lemma ex_connect_none:
  "fst (connect (ex_info [ex_piece True False, ex_piece True False]) ex_fs_full ex_handshake
          (new_PeerTCPClient (replicate 20 3) ex_peer)) = None"
  by (simp add: connect_def receive_protocol_data_def readexactly_def
        length_HANDSHAKE_DATA length_RESERVED_BYTES ex_handshake_def
        receive_info_def SHA1_DIGEST_LEN_def populate_info_def send_protocol_data_def
        new_PeerTCPClient_def ex_peer_def Let_def send_bitfield_def ex_info_def ex_piece_def close_def)

lemma ex_confirm_half:
  "fst (confirm_info_hash ex_half_info ex_fs_full (new_PeerTCPClient (replicate 20 3) ex_peer)) = None"
  "writer (client (snd (confirm_info_hash ex_half_info ex_fs_full
          (new_PeerTCPClient (replicate 20 3) ex_peer)))) =
     replicate 20 1 @ replicate 20 3 @ [0, 0, 0, 2, 5, 128]"
  by (simp_all add: confirm_info_hash_def ex_half_info_def populate_info_def
        new_PeerTCPClient_def ex_peer_def Let_def send_bitfield_def ex_info_def ex_piece_def ex_byte
        send_message_def pack_uint_def upt_conv_Cons)

lemma ex_confirm_none:
  "fst (confirm_info_hash (ex_info [ex_piece True False, ex_piece True False]) ex_fs_full
          (new_PeerTCPClient (replicate 20 3) ex_peer)) = None"
  by (simp add: confirm_info_hash_def populate_info_def new_PeerTCPClient_def ex_peer_def
        Let_def send_bitfield_def ex_info_def ex_piece_def)

text \<open>Claim C10. A handshake ends in \<open>_send_bitfield\<close> on both sides: in \<open>connect\<close> for a
  connection the client opened, in \<open>confirm_info_hash\<close> for one it accepted. When either
  succeeds, what it has written is its part of the handshake (for \<open>connect\<close> the protocol
  header, the reserved bytes, the info hash and the client's peer id; for
  \<open>confirm_info_hash\<close> the info hash and the peer id) and then: nothing if
  \<open>downloaded_piece_count\<close> is zero; otherwise one bitfield message (id 5) whose payload has
  \<open>ceil(piece_count / 8)\<close> bytes, with bit \<open>i\<close> set exactly when piece \<open>i\<close> is downloaded
  and the spare bits zero.\<close>

theorem bitfield_sent_iff_pieces_downloaded:
  "(connect di fs inp c = (None, s', rest) \<longrightarrow>
      (downloaded_piece_count di = 0 \<longrightarrow>
         writer (client s') =
           writer c @ HANDSHAKE_DATA @ RESERVED_BYTES @ info_hash di @ our_peer_id c) \<and>
      (downloaded_piece_count di \<noteq> 0 \<longrightarrow>
         (\<exists>pre payload.
            writer (client s') =
              writer c @ HANDSHAKE_DATA @ RESERVED_BYTES @ info_hash di @ our_peer_id c @
              pre @ [5] @ payload \<and>
            pack_uint 4 (int (length payload) + 1) = Inr pre \<and>
            length payload = (piece_count di + 7) div 8 \<and>
            (\<forall>i < piece_count di. frombytes payload ! i = downloaded (pieces di ! i)) \<and>
            (\<forall>i. piece_count di \<le> i \<and> i < 8 * length payload \<longrightarrow> \<not> frombytes payload ! i)))) \<and>
   (confirm_info_hash di fs c = (None, s'') \<longrightarrow>
      (downloaded_piece_count di = 0 \<longrightarrow>
         writer (client s'') = writer c @ info_hash di @ our_peer_id c) \<and>
      (downloaded_piece_count di \<noteq> 0 \<longrightarrow>
         (\<exists>pre payload.
            writer (client s'') =
              writer c @ info_hash di @ our_peer_id c @ pre @ [5] @ payload \<and>
            pack_uint 4 (int (length payload) + 1) = Inr pre \<and>
            length payload = (piece_count di + 7) div 8 \<and>
            (\<forall>i < piece_count di. frombytes payload ! i = downloaded (pieces di ! i)) \<and>
            (\<forall>i. piece_count di \<le> i \<and> i < 8 * length payload \<longrightarrow> \<not> frombytes payload ! i))))"
proof -
  let ?arr = "map downloaded (pieces di)"
  have len: "length (tobytes ?arr) = (piece_count di + 7) div 8"
    by (simp add: length_tobytes piece_count_def)
  have set_bits: "\<forall>i < piece_count di. frombytes (tobytes ?arr) ! i = downloaded (pieces di ! i)"
    by (simp add: bitfield_bits(1) piece_count_def)
  have spare: "\<forall>i. piece_count di \<le> i \<and> i < 8 * length (tobytes ?arr) \<longrightarrow>
                 \<not> frombytes (tobytes ?arr) ! i"
    using bitfield_bits(2) [of ?arr] by (simp add: piece_count_def)
  have frame: "\<exists>pre payload.
            w = hs @ pre @ [5] @ payload \<and>
            pack_uint 4 (int (length payload) + 1) = Inr pre \<and>
            length payload = (piece_count di + 7) div 8 \<and>
            (\<forall>i < piece_count di. frombytes payload ! i = downloaded (pieces di ! i)) \<and>
            (\<forall>i. piece_count di \<le> i \<and> i < 8 * length payload \<longrightarrow> \<not> frombytes payload ! i)"
    if "pack_uint 4 (int (length (tobytes ?arr)) + 1) = Inr pre" and
       "w = hs @ pre @ [5] @ tobytes ?arr" for w hs pre
    using that len set_bits spare by blast
  have outbound: "(downloaded_piece_count di = 0 \<longrightarrow>
         writer (client s') =
           writer c @ HANDSHAKE_DATA @ RESERVED_BYTES @ info_hash di @ our_peer_id c) \<and>
      (downloaded_piece_count di \<noteq> 0 \<longrightarrow>
         (\<exists>pre payload.
            writer (client s') =
              (writer c @ HANDSHAKE_DATA @ RESERVED_BYTES @ info_hash di @ our_peer_id c) @
              pre @ [5] @ payload \<and>
            pack_uint 4 (int (length payload) + 1) = Inr pre \<and>
            length payload = (piece_count di + 7) div 8 \<and>
            (\<forall>i < piece_count di. frombytes payload ! i = downloaded (pieces di ! i)) \<and>
            (\<forall>i. piece_count di \<le> i \<and> i < 8 * length payload \<longrightarrow> \<not> frombytes payload ! i)))"
    if ok: "connect di fs inp c = (None, s', rest)"
  proof -
    from connect_success [OF ok] obtain c' s1 where
      sb: "send_bitfield \<lparr>client = c', download_info = di, file_structure = fs\<rparr> = (None, s1)" and
      s': "s' = s1\<lparr>client := (client s1)\<lparr>connected := True\<rparr>\<rparr>" and
      w: "writer c' = writer c @ HANDSHAKE_DATA @ RESERVED_BYTES @ info_hash di @ our_peer_id c"
      by blast
    note r = send_bitfield_result [OF sb, simplified]
    show ?thesis
    proof (intro conjI impI)
      assume "downloaded_piece_count di = 0"
      with r s' w show "writer (client s') =
          writer c @ HANDSHAKE_DATA @ RESERVED_BYTES @ info_hash di @ our_peer_id c"
        by simp
    next
      assume "downloaded_piece_count di \<noteq> 0"
      with r obtain pre where
        pre: "pack_uint 4 (int (length (tobytes ?arr)) + 1) = Inr pre" and
        s1: "s1 = \<lparr>client = c'\<lparr>writer := writer c' @ pre @ [5] @ tobytes ?arr\<rparr>,
                    download_info = di, file_structure = fs\<rparr>"
        by auto
      have "writer (client s') =
              (writer c @ HANDSHAKE_DATA @ RESERVED_BYTES @ info_hash di @ our_peer_id c) @
              pre @ [5] @ tobytes ?arr"
        by (simp add: s' s1 w)
      from frame [OF pre this] show "\<exists>pre payload.
            writer (client s') =
              (writer c @ HANDSHAKE_DATA @ RESERVED_BYTES @ info_hash di @ our_peer_id c) @
              pre @ [5] @ payload \<and>
            pack_uint 4 (int (length payload) + 1) = Inr pre \<and>
            length payload = (piece_count di + 7) div 8 \<and>
            (\<forall>i < piece_count di. frombytes payload ! i = downloaded (pieces di ! i)) \<and>
            (\<forall>i. piece_count di \<le> i \<and> i < 8 * length payload \<longrightarrow> \<not> frombytes payload ! i)" .
    qed
  qed
  have inbound: "(downloaded_piece_count di = 0 \<longrightarrow>
         writer (client s'') = writer c @ info_hash di @ our_peer_id c) \<and>
      (downloaded_piece_count di \<noteq> 0 \<longrightarrow>
         (\<exists>pre payload.
            writer (client s'') =
              (writer c @ info_hash di @ our_peer_id c) @ pre @ [5] @ payload \<and>
            pack_uint 4 (int (length payload) + 1) = Inr pre \<and>
            length payload = (piece_count di + 7) div 8 \<and>
            (\<forall>i < piece_count di. frombytes payload ! i = downloaded (pieces di ! i)) \<and>
            (\<forall>i. piece_count di \<le> i \<and> i < 8 * length payload \<longrightarrow> \<not> frombytes payload ! i)))"
    if ok: "confirm_info_hash di fs c = (None, s'')"
  proof (intro conjI impI)
    assume "downloaded_piece_count di = 0"
    with confirm_info_hash_bitfield [OF ok]
    show "writer (client s'') = writer c @ info_hash di @ our_peer_id c"
      by simp
  next
    assume "downloaded_piece_count di \<noteq> 0"
    with confirm_info_hash_bitfield [OF ok] obtain pre where
      pre: "pack_uint 4 (int (length (tobytes ?arr)) + 1) = Inr pre" and
      "writer (client s'') = writer c @ info_hash di @ our_peer_id c @ pre @ [5] @ tobytes ?arr"
      by blast
    then have "writer (client s'') =
                 (writer c @ info_hash di @ our_peer_id c) @ pre @ [5] @ tobytes ?arr"
      by simp
    from frame [OF pre this] show "\<exists>pre payload.
            writer (client s'') =
              (writer c @ info_hash di @ our_peer_id c) @ pre @ [5] @ payload \<and>
            pack_uint 4 (int (length payload) + 1) = Inr pre \<and>
            length payload = (piece_count di + 7) div 8 \<and>
            (\<forall>i < piece_count di. frombytes payload ! i = downloaded (pieces di ! i)) \<and>
            (\<forall>i. piece_count di \<le> i \<and> i < 8 * length payload \<longrightarrow> \<not> frombytes payload ! i)" .
  qed
  from outbound inbound show ?thesis
    by (simp only: append_assoc) blast
qed

theorem bitfield_sent_iff_pieces_downloaded_witness:
  "fst (connect ex_half_info ex_fs_full ex_handshake
          (new_PeerTCPClient (replicate 20 3) ex_peer)) = None \<and>
   writer (client (fst (snd (connect ex_half_info ex_fs_full ex_handshake
          (new_PeerTCPClient (replicate 20 3) ex_peer))))) =
     HANDSHAKE_DATA @ RESERVED_BYTES @ replicate 20 1 @ replicate 20 3 @ [0, 0, 0, 2, 5, 128] \<and>
   frombytes [128] = [True, False, False, False, False, False, False, False] \<and>
   fst (connect (ex_info [ex_piece True False, ex_piece True False]) ex_fs_full ex_handshake
          (new_PeerTCPClient (replicate 20 3) ex_peer)) = None \<and>
   writer (client (fst (snd (connect (ex_info [ex_piece True False, ex_piece True False])
          ex_fs_full ex_handshake (new_PeerTCPClient (replicate 20 3) ex_peer))))) =
     HANDSHAKE_DATA @ RESERVED_BYTES @ replicate 20 1 @ replicate 20 3 \<and>
   fst (confirm_info_hash ex_half_info ex_fs_full
          (new_PeerTCPClient (replicate 20 3) ex_peer)) = None \<and>
   writer (client (snd (confirm_info_hash ex_half_info ex_fs_full
          (new_PeerTCPClient (replicate 20 3) ex_peer)))) =
     replicate 20 1 @ replicate 20 3 @ [0, 0, 0, 2, 5, 128] \<and>
   fst (confirm_info_hash (ex_info [ex_piece True False, ex_piece True False]) ex_fs_full
          (new_PeerTCPClient (replicate 20 3) ex_peer)) = None \<and>
   writer (client (snd (confirm_info_hash (ex_info [ex_piece True False, ex_piece True False])
          ex_fs_full (new_PeerTCPClient (replicate 20 3) ex_peer)))) =
     replicate 20 1 @ replicate 20 3"
proof -
  let ?c = "new_PeerTCPClient (replicate 20 3) ex_peer"
  let ?di = "ex_info [ex_piece True False, ex_piece True False]"
  let ?r = "connect ?di ex_fs_full ex_handshake ?c"
  let ?q = "confirm_info_hash ?di ex_fs_full ?c"
  have none: "downloaded_piece_count ?di = 0"
    by (simp add: ex_info_def)
  have "?r = (None, fst (snd ?r), snd (snd ?r))"
    using ex_connect_none by (simp add: prod_eq_iff)
  from bitfield_sent_iff_pieces_downloaded
         [THEN conjunct1, rule_format, OF this, THEN conjunct1, rule_format, OF none]
  have out: "writer (client (fst (snd ?r))) =
          HANDSHAKE_DATA @ RESERVED_BYTES @ replicate 20 1 @ replicate 20 3"
    by (simp add: ex_info_def new_PeerTCPClient_def)
  have "?q = (None, snd ?q)"
    using ex_confirm_none by (simp add: prod_eq_iff)
  from bitfield_sent_iff_pieces_downloaded
         [THEN conjunct2, rule_format, OF this, THEN conjunct1, rule_format, OF none]
  have inb: "writer (client (snd ?q)) = replicate 20 1 @ replicate 20 3"
    by (simp add: ex_info_def new_PeerTCPClient_def)
  have "frombytes [128] = [True, False, False, False, False, False, False, False]"
    by (simp add: frombytes_def bits_of_byte_def upt_conv_Cons bit_numeral_word_iff)
  with out inb show ?thesis
    using ex_connect_half ex_connect_none ex_confirm_half ex_confirm_none by simp
qed

subsection \<open>Received bitfields\<close>

lemma set_am_interested_connected:
  "connected c \<Longrightarrow>
   set_am_interested v c =
     (None, if am_interested c = v then c
            else c\<lparr>am_interested := v, writer := writer c @ [0, 0, 0, 1, if v then 2 else 3]\<rparr>)"
  by (simp add: set_am_interested_def check_connect_def send_message_empty)

lemma mark_as_owner_connected:
  assumes "connected (client s)" and "i < length (piece_owned (client s))"
      and "i < length (pieces (download_info s))"
  shows "\<exists>s'. mark_as_owner i s = (None, s') \<and> connected (client s') \<and>
           peer (client s') = peer (client s) \<and>
           piece_owned (client s') = (piece_owned (client s))[i := True] \<and>
           length (pieces (download_info s')) = length (pieces (download_info s)) \<and>
           (\<forall>j. owners (pieces (download_info s') ! j) =
                (if j = i then insert (peer (client s)) (owners (pieces (download_info s) ! j))
                 else owners (pieces (download_info s) ! j)))"
  using assms
  by (simp add: mark_as_owner_def Let_def set_am_interested_connected nth_list_update)

lemma mark_owned_connected:
  assumes "connected (client s)" and "length (piece_owned (client s)) = n"
      and "length (pieces (download_info s)) = n" and "\<forall>i\<in>set idxs. i < n"
  shows "\<exists>s'. mark_owned arr idxs s = (None, s') \<and> connected (client s') \<and>
           peer (client s') = peer (client s) \<and>
           length (piece_owned (client s')) = n \<and>
           length (pieces (download_info s')) = n \<and>
           (\<forall>j < n. piece_owned (client s') ! j =
                (piece_owned (client s) ! j \<or> (j \<in> set idxs \<and> arr ! j))) \<and>
           (\<forall>j < n. owners (pieces (download_info s') ! j) =
                (if j \<in> set idxs \<and> arr ! j
                 then insert (peer (client s)) (owners (pieces (download_info s) ! j))
                 else owners (pieces (download_info s) ! j)))"
  using assms
proof (induction idxs arbitrary: s)
  case Nil
  then show ?case by simp
next
  case (Cons i rest)
  show ?case
  proof (cases "arr ! i")
    case False
    with Cons.IH [OF Cons.prems(1-3)] Cons.prems(4) show ?thesis
      by auto
  next
    case True
    have i: "i < length (piece_owned (client s))" "i < length (pieces (download_info s))"
      using Cons.prems by simp_all
    from mark_as_owner_connected [OF Cons.prems(1) i] obtain s1 where
      m: "mark_as_owner i s = (None, s1)" and c1: "connected (client s1)" and
      p1: "peer (client s1) = peer (client s)" and
      o1: "piece_owned (client s1) = (piece_owned (client s))[i := True]" and
      l1: "length (pieces (download_info s1)) = length (pieces (download_info s))" and
      w1: "\<forall>j. owners (pieces (download_info s1) ! j) =
                (if j = i then insert (peer (client s)) (owners (pieces (download_info s) ! j))
                 else owners (pieces (download_info s) ! j))"
      by blast
    have len1: "length (piece_owned (client s1)) = n" "length (pieces (download_info s1)) = n"
      using o1 l1 Cons.prems by simp_all
    have rest: "\<forall>i\<in>set rest. i < n"
      using Cons.prems by simp
    from Cons.IH [OF c1 len1 rest] obtain s' where
      r: "mark_owned arr rest s1 = (None, s')" and c': "connected (client s')" and
      p': "peer (client s') = peer (client s1)" and
      l': "length (piece_owned (client s')) = n" "length (pieces (download_info s')) = n" and
      o': "\<forall>j < n. piece_owned (client s') ! j =
                (piece_owned (client s1) ! j \<or> (j \<in> set rest \<and> arr ! j))" and
      w': "\<forall>j < n. owners (pieces (download_info s') ! j) =
                (if j \<in> set rest \<and> arr ! j
                 then insert (peer (client s1)) (owners (pieces (download_info s1) ! j))
                 else owners (pieces (download_info s1) ! j))"
      by blast
    have "mark_owned arr (i # rest) s = (None, s')"
      using True m r by simp
    moreover have "\<forall>j < n. piece_owned (client s') ! j =
                (piece_owned (client s) ! j \<or> (j \<in> set (i # rest) \<and> arr ! j))"
    proof (intro allI impI)
      fix j
      assume j: "j < n"
      have "(piece_owned (client s))[i := True] ! j = (j = i \<or> piece_owned (client s) ! j)"
        using j Cons.prems(2) by (cases "j = i") simp_all
      with o' o1 True j
      show "piece_owned (client s') ! j =
              (piece_owned (client s) ! j \<or> (j \<in> set (i # rest) \<and> arr ! j))"
        by auto
    qed
    moreover have "\<forall>j < n. owners (pieces (download_info s') ! j) =
                (if j \<in> set (i # rest) \<and> arr ! j
                 then insert (peer (client s)) (owners (pieces (download_info s) ! j))
                 else owners (pieces (download_info s) ! j))"
      using w' w1 p1 True by auto
    ultimately show ?thesis
      using c' p' p1 l' by simp
  qed
qed

lemma handle_haves_bitfield:
  assumes conn: "connected (client s)"
      and pop: "length (piece_owned (client s)) = piece_count (download_info s)"
      and len: "length payload = (piece_count (download_info s) + 7) div 8"
  shows "\<exists>s'. mark_owned (frombytes payload) [0..<piece_count (download_info s)] s = (None, s') \<and>
           handle_haves Bitfield payload s =
             (if \<exists>i. piece_count (download_info s) \<le> i \<and> i < 8 * length payload \<and>
                     frombytes payload ! i
              then Some ValueError else None, s') \<and>
           length (piece_owned (client s')) = piece_count (download_info s) \<and>
           (\<forall>i < piece_count (download_info s).
              piece_owned (client s') ! i = (piece_owned (client s) ! i \<or> frombytes payload ! i) \<and>
              owners (pieces (download_info s') ! i) =
                (if frombytes payload ! i
                 then insert (peer (client s)) (owners (pieces (download_info s) ! i))
                 else owners (pieces (download_info s) ! i)))"
proof -
  let ?pc = "piece_count (download_info s)"
  have "length (pieces (download_info s)) = ?pc" "\<forall>i\<in>set [0..<?pc]. i < ?pc"
    by (simp_all add: piece_count_def)
  from mark_owned_connected [OF conn pop this, of "frombytes payload"] obtain s' where
    m: "mark_owned (frombytes payload) [0..<?pc] s = (None, s')" and
    l: "length (piece_owned (client s')) = ?pc" and
    o: "\<forall>j < ?pc. piece_owned (client s') ! j =
          (piece_owned (client s) ! j \<or> (j \<in> set [0..<?pc] \<and> frombytes payload ! j))" and
    w: "\<forall>j < ?pc. owners (pieces (download_info s') ! j) =
          (if j \<in> set [0..<?pc] \<and> frombytes payload ! j
           then insert (peer (client s)) (owners (pieces (download_info s) ! j))
           else owners (pieces (download_info s) ! j))"
    by blast
  have spare: "list_ex (\<lambda>i. frombytes payload ! i) [?pc..<length (frombytes payload)] \<longleftrightarrow>
                 (\<exists>i. ?pc \<le> i \<and> i < 8 * length payload \<and> frombytes payload ! i)"
    by (auto simp: list_ex_iff length_frombytes)
  have "handle_haves Bitfield payload s =
          (if list_ex (\<lambda>i. frombytes payload ! i) [?pc..<length (frombytes payload)]
           then Some ValueError else None, s')"
    using len m by (simp add: handle_haves_def check_payload_len_def Let_def)
  then have "handle_haves Bitfield payload s =
          (if \<exists>i. ?pc \<le> i \<and> i < 8 * length payload \<and> frombytes payload ! i
           then Some ValueError else None, s')"
    by (simp only: spare)
  with m l o w show ?thesis
    by (intro exI [of _ s']) simp
qed

lemma run_bitfield_frame:
  assumes "length pre = 4" "unpack_uint pre = Suc (length payload)"
      and "Suc (length payload) \<le> MAX_MESSAGE_LENGTH"
  shows "run s (pre @ 5 # payload @ rest) =
           (case handle_haves Bitfield payload s of
              (Some e, s') \<Rightarrow> (e, s') | (None, s') \<Rightarrow> run s' rest)"
proof -
  have "MessageType_of (unat (5 :: byte)) = Some Bitfield"
    by (simp add: MessageType_of_def)
  then show ?thesis
    by (subst run.simps) (simp add: receive_message_frame [OF assms] dispatch_def)
qed

lemma ex_frombytes:
  "frombytes [192] = [True, True, False, False, False, False, False, False]"
  "frombytes [193] = [True, True, False, False, False, False, False, True]"
  "frombytes [192, 0] = [True, True, False, False, False, False, False, False,
                         False, False, False, False, False, False, False, False]"
  by (simp_all add: frombytes_def bits_of_byte_def upt_conv_Cons bit_numeral_word_iff)

text \<open>The hypotheses of the next theorem hold after a successful \<open>connect\<close> and are kept
  by every handler, hence throughout the receive loop.\<close>

lemma send_message_keeps:
  "connected (snd (send_message m p c)) = connected c"
  "piece_owned (snd (send_message m p c)) = piece_owned c"
  by (simp_all add: send_message_def split: sum.splits)

lemma set_am_interested_keeps:
  "connected (snd (set_am_interested v c)) = connected c"
  "piece_owned (snd (set_am_interested v c)) = piece_owned c"
  by (simp_all add: set_am_interested_def send_message_keeps split: option.splits)

lemma mark_as_owner_keeps:
  "session_ok s \<Longrightarrow> session_ok (snd (mark_as_owner i s))"
  by (simp add: mark_as_owner_def Let_def session_ok_def piece_count_def case_prod_beta
        set_am_interested_keeps)

lemma mark_owned_keeps:
  "session_ok s \<Longrightarrow> session_ok (snd (mark_owned arr idxs s))"
proof (induction idxs arbitrary: s)
  case Nil
  then show ?case by simp
next
  case (Cons i rest)
  from Cons.prems have "session_ok (snd (mark_as_owner i s))"
    by (rule mark_as_owner_keeps)
  with Cons show ?case
    by (cases "mark_as_owner i s") (auto split: option.splits)
qed

lemma handle_haves_keeps:
  "session_ok s \<Longrightarrow> session_ok (snd (handle_haves m p s))"
  using mark_owned_keeps [of s "frombytes p" "[0..<piece_count (download_info s)]"]
    mark_as_owner_keeps [of s "unpack_uint p"]
  by (auto simp: handle_haves_def Let_def split: option.splits prod.splits)

lemma send_block_keeps:
  "session_ok s \<Longrightarrow> session_ok (snd (send_block r s))"
  by (simp add: send_block_def session_ok_def piece_count_def send_message_keeps case_prod_beta
        split: sum.splits option.splits)

lemma handle_requests_keeps:
  "session_ok s \<Longrightarrow> session_ok (snd (handle_requests m p s))"
  by (auto simp: handle_requests_def Let_def send_block_keeps split: option.splits)

lemma handle_block_keeps:
  "session_ok s \<Longrightarrow> session_ok (snd (handle_block p s))"
  by (auto simp: handle_block_def Let_def session_ok_def piece_count_def
        split: option.splits sum.splits)

lemma dispatch_keeps:
  "session_ok s \<Longrightarrow> session_ok (snd (dispatch m p s))"
  by (cases m)
     (simp_all add: dispatch_def handle_haves_keeps handle_requests_keeps handle_block_keeps,
      simp_all add: handle_setting_states_def session_ok_def split: option.splits)

lemma run_keeps:
  "session_ok s \<Longrightarrow> session_ok (snd (run s inp))"
proof (induction s inp rule: run.induct)
  case (1 s inp)
  show ?case
  proof (cases "receive_message inp")
    case (Inl e)
    with "1.prems" show ?thesis
      by (subst run.simps) simp
  next
    case (Inr r)
    obtain msg rest where r: "r = (msg, rest)"
      by (cases r)
    show ?thesis
    proof (cases msg)
      case None
      with Inr r "1.IH"(1) "1.prems" show ?thesis
        by (subst run.simps) simp
    next
      case (Some mp)
      obtain m p where mp: "mp = (m, p)"
        by (cases mp)
      obtain e s' where d: "dispatch m p s = (e, s')"
        by (cases "dispatch m p s")
      have ok: "session_ok s'"
        using dispatch_keeps [OF "1.prems", of m p] d by simp
      show ?thesis
      proof (cases e)
        case None
        with Inr r Some mp d "1.IH"(2) ok show ?thesis
          by (subst run.simps) simp
      next
        case (Some err)
        with Inr r \<open>msg = Some mp\<close> mp d ok show ?thesis
          by (subst run.simps) simp
      qed
    qed
  qed
qed

lemma connect_session_ok:
  "connect di fs inp c = (None, s', rest) \<Longrightarrow> session_ok s'"
  using connect_establishes_session [of di fs inp c s' rest]
  by (simp add: session_ok_def)

text \<open>Claim C6. On a connected session whose \<open>piece_owned\<close> array has \<open>piece_count\<close> entries
  (as \<open>_populate_info\<close> allocates it), a bitfield payload of a length other than
  \<open>ceil(piece_count / 8)\<close> raises \<open>ValueError\<close>, and so does a payload of the right length
  with a spare bit set; an exception of the handler ends the receive loop. Otherwise the
  handler returns normally, every set bit \<open>i < piece_count\<close> makes the peer an owner of piece
  \<open>i\<close>, and \<open>piece_owned\<close> keeps its \<open>piece_count\<close> entries, so the number of pieces
  owned is at most \<open>piece_count\<close>.\<close>

theorem bitfield_handling:
  fixes s :: session and payload :: bytes
  defines "pc \<equiv> piece_count (download_info s)"
  assumes conn: "connected (client s)"
      and pop: "length (piece_owned (client s)) = pc"
  shows "(length payload \<noteq> (pc + 7) div 8 \<longrightarrow>
            handle_haves Bitfield payload s = (Some ValueError, s)) \<and>
         (length payload = (pc + 7) div 8 \<and>
          (\<exists>i. pc \<le> i \<and> i < 8 * length payload \<and> frombytes payload ! i) \<longrightarrow>
            fst (handle_haves Bitfield payload s) = Some ValueError) \<and>
         (length payload = (pc + 7) div 8 \<and>
          (\<forall>i. pc \<le> i \<and> i < 8 * length payload \<longrightarrow> \<not> frombytes payload ! i) \<longrightarrow>
            (\<exists>s'. handle_haves Bitfield payload s = (None, s') \<and>
                  length (piece_owned (client s')) = pc \<and>
                  length (filter id (piece_owned (client s'))) \<le> pc \<and>
                  (\<forall>i < pc. frombytes payload ! i \<longrightarrow>
                     piece_owned (client s') ! i \<and>
                     peer (client s) \<in> owners (pieces (download_info s') ! i)))) \<and>
         (\<forall>e. fst (handle_haves Bitfield payload s) = Some e \<and> length pre = 4 \<and>
              unpack_uint pre = Suc (length payload) \<and> Suc (length payload) \<le> MAX_MESSAGE_LENGTH \<longrightarrow>
              run s (pre @ 5 # payload @ rest) = (e, snd (handle_haves Bitfield payload s)))"
proof (intro conjI impI allI)
  assume "length payload \<noteq> (pc + 7) div 8"
  then show "handle_haves Bitfield payload s = (Some ValueError, s)"
    by (simp add: handle_haves_def check_payload_len_def Let_def pc_def)
next
  assume a: "length payload = (pc + 7) div 8 \<and>
             (\<exists>i. pc \<le> i \<and> i < 8 * length payload \<and> frombytes payload ! i)"
  with handle_haves_bitfield [OF conn pop [unfolded pc_def], of payload]
  show "fst (handle_haves Bitfield payload s) = Some ValueError"
    unfolding pc_def by auto
next
  assume a: "length payload = (pc + 7) div 8 \<and>
             (\<forall>i. pc \<le> i \<and> i < 8 * length payload \<longrightarrow> \<not> frombytes payload ! i)"
  with handle_haves_bitfield [OF conn pop [unfolded pc_def], of payload] obtain s' where
    h: "handle_haves Bitfield payload s = (None, s')" and
    l: "length (piece_owned (client s')) = pc" and
    o: "\<forall>i < pc. piece_owned (client s') ! i = (piece_owned (client s) ! i \<or> frombytes payload ! i) \<and>
              owners (pieces (download_info s') ! i) =
                (if frombytes payload ! i
                 then insert (peer (client s)) (owners (pieces (download_info s) ! i))
                 else owners (pieces (download_info s) ! i))"
    unfolding pc_def by auto
  have "length (filter id (piece_owned (client s'))) \<le> pc"
    using length_filter_le [of id "piece_owned (client s')"] l by simp
  with h l o show "\<exists>s'. handle_haves Bitfield payload s = (None, s') \<and>
                  length (piece_owned (client s')) = pc \<and>
                  length (filter id (piece_owned (client s'))) \<le> pc \<and>
                  (\<forall>i < pc. frombytes payload ! i \<longrightarrow>
                     piece_owned (client s') ! i \<and>
                     peer (client s) \<in> owners (pieces (download_info s') ! i))"
    by (intro exI [of _ s']) simp
next
  fix e
  assume a: "fst (handle_haves Bitfield payload s) = Some e \<and> length pre = 4 \<and>
              unpack_uint pre = Suc (length payload) \<and> Suc (length payload) \<le> MAX_MESSAGE_LENGTH"
  then have "run s (pre @ 5 # payload @ rest) =
           (case handle_haves Bitfield payload s of
              (Some e, s') \<Rightarrow> (e, s') | (None, s') \<Rightarrow> run s' rest)"
    by (intro run_bitfield_frame) simp_all
  with a show "run s (pre @ 5 # payload @ rest) = (e, snd (handle_haves Bitfield payload s))"
    by (simp add: case_prod_beta)
qed

theorem bitfield_handling_witness:
  "connected (client (ex_session [ex_piece True False, ex_piece True False])) \<and>
   length (piece_owned (client (ex_session [ex_piece True False, ex_piece True False]))) =
     piece_count (download_info (ex_session [ex_piece True False, ex_piece True False])) \<and>
   handle_haves Bitfield [192, 0] (ex_session [ex_piece True False, ex_piece True False]) =
     (Some ValueError, ex_session [ex_piece True False, ex_piece True False]) \<and>
   fst (handle_haves Bitfield [193] (ex_session [ex_piece True False, ex_piece True False])) =
     Some ValueError \<and>
   fst (handle_haves Bitfield [192] (ex_session [ex_piece True False, ex_piece True False])) = None \<and>
   piece_owned (client (snd (handle_haves Bitfield [192]
       (ex_session [ex_piece True False, ex_piece True False])))) = [True, True]"
proof -
  let ?s = "ex_session [ex_piece True False, ex_piece True False]"
  have conn: "connected (client ?s)"
    by (simp add: ex_session_def ex_client_def)
  have pop: "length (piece_owned (client ?s)) = piece_count (download_info ?s)"
    by (simp add: ex_session_fields) (simp add: ex_session_def)
  note t = bitfield_handling [OF conn pop]
  have a: "handle_haves Bitfield [192, 0] ?s = (Some ValueError, ?s)"
    by (rule t [THEN conjunct1, rule_format]) (simp add: ex_session_fields)
  have "\<exists>i. piece_count (download_info ?s) \<le> i \<and> i < 8 * length [193 :: byte] \<and>
          frombytes [193] ! i"
    by (intro exI [of _ 7]) (simp add: ex_session_fields ex_frombytes)
  then have b: "fst (handle_haves Bitfield [193] ?s) = Some ValueError"
    by (intro t [THEN conjunct2, THEN conjunct1, rule_format]) (simp add: ex_session_fields)
  have c: "handle_haves Bitfield [192] ?s =
             (None, ?s\<lparr>client := (client ?s)\<lparr>piece_owned := [True, True]\<rparr>,
                      download_info := (download_info ?s)
                        \<lparr>pieces := [(ex_piece True False)\<lparr>owners := {ex_peer}\<rparr>,
                                    (ex_piece True False)\<lparr>owners := {ex_peer}\<rparr>]\<rparr>\<rparr>)"
    by (simp add: handle_haves_def check_payload_len_def ex_session_fields Let_def ex_frombytes
          upt_conv_Cons mark_as_owner_def)
       (simp add: ex_session_def ex_info_def ex_piece_def ex_client_def new_PeerTCPClient_def)
  from conn pop a b c show ?thesis
    by simp
qed

end
